(* ===== verification/Prelude.thy ===== *)
theory Prelude
  imports Main "HOL-Library.Word"
begin

text \<open>
  Shared vocabulary of the SaltShaker development: the JavaScript values the library
  passes around (byte arrays, strings of UTF-16 code units), the exceptions it can
  throw, the result type \<open>'a js\<close> in which a thrown exception is an \<open>Inl\<close> value, a
  sequencing combinator for it, and the arithmetic facts on bit operations that the
  codec proofs share.
\<close>

unbundle bit_operations_syntax

section \<open>JavaScript values\<close>

text \<open>
  A \<^verbatim>\<open>Uint8Array\<close> is a list of bytes; a JavaScript string is a list of 16-bit code
  units (what \<^verbatim>\<open>charCodeAt\<close> reads and \<^verbatim>\<open>String.fromCharCode\<close> builds).
\<close>

type_synonym byte = "8 word"
type_synonym bytes = "byte list"
type_synonym code_unit = "16 word"
type_synonym jsstr = "code_unit list"

text \<open>
  The exceptions that can escape a SaltShaker call. Each constructor names the
  JavaScript exception and the place that throws it.
\<close>

datatype js_error =
    InvalidEncoding      \<comment> \<open>\<^verbatim>\<open>TypeError('invalid encoding')\<close> of \<^verbatim>\<open>nacl.util.decodeBase64\<close>\<close>
  | MalformedURI         \<comment> \<open>\<^verbatim>\<open>URIError\<close> of \<^verbatim>\<open>encodeURIComponent\<close> in \<^verbatim>\<open>nacl.util.decodeUTF8\<close>\<close>
  | UnexpectedType       \<comment> \<open>\<^verbatim>\<open>TypeError('unexpected type, use Uint8Array')\<close> of tweetnacl\<close>
  | BadKeySize           \<comment> \<open>\<^verbatim>\<open>Error('bad key size')\<close>\<close>
  | BadNonceSize         \<comment> \<open>\<^verbatim>\<open>Error('bad nonce size')\<close>\<close>
  | BadPublicKeySize     \<comment> \<open>\<^verbatim>\<open>Error('bad public key size')\<close>\<close>
  | BadSecretKeySize     \<comment> \<open>\<^verbatim>\<open>Error('bad secret key size')\<close>\<close>
  | NullProperty         \<comment> \<open>\<^verbatim>\<open>TypeError\<close>: reading \<^verbatim>\<open>.length\<close> of \<^verbatim>\<open>null\<close>\<close>

type_synonym 'a js = "js_error + 'a"

text \<open>
  The object \<^verbatim>\<open>{"message": ..., "nonce": ...}\<close> that \<^verbatim>\<open>encrypt\<close> and
  \<^verbatim>\<open>encryptPSK\<close> return (lines 135--138 and 154--157), both fields base64 strings.
\<close>

record envelope =
  message :: jsstr
  nonce :: jsstr

text \<open>
  JavaScript evaluates the arguments of a call from left to right and a thrown
  exception aborts the rest: \<open>bindE\<close> is that sequencing.
\<close>

definition bindE :: "'a js \<Rightarrow> ('a \<Rightarrow> 'b js) \<Rightarrow> 'b js" where
  "bindE m f = (case m of Inl e \<Rightarrow> Inl e | Inr x \<Rightarrow> f x)"

definition mapE :: "('a \<Rightarrow> 'b) \<Rightarrow> 'a js \<Rightarrow> 'b js" where
  "mapE f m = bindE m (\<lambda>x. Inr (f x))"

named_theorems js_simps "unfolding and evaluation rules of the SaltShaker model"

lemma bindE_simps [simp, js_simps]:
  "bindE (Inl e) f = Inl e"
  "bindE (Inr x) f = f x"
  by (simp_all add: bindE_def)

lemma mapE_simps [simp, js_simps]:
  "mapE f (Inl e) = Inl e"
  "mapE f (Inr x) = Inr (f x)"
  by (simp_all add: mapE_def)

lemma bindE_eq_Inr_iff:
  "bindE m f = Inr y \<longleftrightarrow> (\<exists>x. m = Inr x \<and> f x = Inr y)"
  by (cases m) simp_all

lemma bindE_eq_Inl_iff:
  "bindE m f = Inl e \<longleftrightarrow> m = Inl e \<or> (\<exists>x. m = Inr x \<and> f x = Inl e)"
  by (cases m) simp_all

section \<open>Bit operations as arithmetic\<close>

text \<open>
  The codecs compute with JavaScript numbers that are small and non-negative, so
  their bit operations are \<open>nat\<close> operations; these rules turn masks and shifts
  into \<open>mod\<close>, \<open>div\<close> and \<open>*\<close>, where the simplifier and \<open>arith\<close> work.
\<close>

named_theorems bit_arith "bit operations on small naturals as arithmetic"

lemma and_mask_nat_mod: "(x::nat) AND mask n = x mod 2 ^ n"
  by (simp add: take_bit_eq_mask [symmetric] take_bit_eq_mod)

lemma and_numeral_masks [bit_arith]:
  "(x::nat) AND 0x3F = x mod 64"
  "(x::nat) AND 0x1F = x mod 32"
  "(x::nat) AND 0x0F = x mod 16"
  "(x::nat) AND 3 = x mod 4"
proof -
  have m: "(0x3F::nat) = mask 6" "(0x1F::nat) = mask 5" "(0x0F::nat) = mask 4" "(3::nat) = mask 2"
    by (simp_all add: mask_eq_exp_minus_1)
  show "(x::nat) AND 0x3F = x mod 64" "(x::nat) AND 0x1F = x mod 32"
    "(x::nat) AND 0x0F = x mod 16" "(x::nat) AND 3 = x mod 4"
    by (simp_all only: m and_mask_nat_mod) simp_all
qed

lemma push_bit_or_small: "(b::nat) < 2 ^ n \<Longrightarrow> push_bit n a OR b = a * 2 ^ n + b"
proof -
  assume "b < 2 ^ n"
  then have b: "take_bit n b = b" by (simp add: take_bit_nat_eq_self)
  have "push_bit n a + take_bit n b = push_bit n a OR take_bit n b"
    by (rule disjunctive_add) (auto simp: bit_simps)
  then show ?thesis by (simp add: b push_bit_eq_mult)
qed

lemma drop_bit_nat_div [bit_arith]: "drop_bit n (x::nat) = x div 2 ^ n"
  by (rule drop_bit_eq_div)

lemma push_bit_nat_mult [bit_arith]: "push_bit n (x::nat) = x * 2 ^ n"
  by (rule push_bit_eq_mult)

section \<open>Positional arithmetic\<close>

text \<open>
  Byte encodings split a number into digits of base 64, 16 and 4096. The decision
  procedures are slow on such goals, so the codec proofs rewrite with these.
\<close>

lemma offset_div: "0 < (n::nat) \<Longrightarrow> (k * n + q) div n = k + q div n"
  by simp

lemma offset_mod: "(k * n + (q::nat)) mod n = q mod n"
  by simp

lemma base4096_digits: "(x::nat) div 4096 * 4096 + x div 64 mod 64 * 64 + x mod 64 = x"
proof -
  define y where "y = x div 64"
  have q: "x div 4096 = y div 64" by (simp add: y_def div_mult2_eq)
  have "x div 4096 * 4096 + y mod 64 * 64 = (y div 64 * 64 + y mod 64) * 64"
    by (simp only: q add_mult_distrib mult.assoc)
  also have "\<dots> = y * 64" by (simp only: div_mult_mod_eq)
  finally have "x div 4096 * 4096 + y mod 64 * 64 + x mod 64 = y * 64 + x mod 64" by simp
  then show ?thesis by (simp add: y_def)
qed

section \<open>Bytes and code units\<close>

text \<open>An ASCII string literal of the source, as JavaScript code units.\<close>

definition js_lit :: "string \<Rightarrow> jsstr" where
  "js_lit cs = map (\<lambda>c. word_of_nat (of_char c)) cs"

text \<open>The same literal as the bytes of its ASCII codes.\<close>

definition js_bytes :: "string \<Rightarrow> bytes" where
  "js_bytes cs = map (\<lambda>c. word_of_nat (of_char c)) cs"

lemma unat_byte_less [simp]: "unat (b::byte) < 256"
  using unsigned_less [of b] by simp

lemma unat_code_unit_less [simp]: "unat (u::code_unit) < 65536"
  using unsigned_less [of u] by simp

lemma unat_of_nat_byte [simp]: "n < 256 \<Longrightarrow> unat (word_of_nat n :: byte) = n"
  by (simp add: unat_of_nat)

lemma unat_of_nat_code_unit [simp]: "n < 65536 \<Longrightarrow> unat (word_of_nat n :: code_unit) = n"
  by (simp add: unat_of_nat)

lemma code_unit_of_unat [simp]: "(word_of_nat (unat (u::code_unit)) :: code_unit) = u"
  by simp

end
