(* ===== verification/Utf8.thy ===== *)
theory Utf8
  imports Prelude
begin

text \<open>
  The text codec of SaltShaker: \<^verbatim>\<open>nacl.util.decodeUTF8\<close>, which turns a JavaScript
  string into its UTF-8 bytes before anything is signed or encrypted, and the
  source's own \<^verbatim>\<open>_decoder\<close> (src/saltshaker.js, lines 45--78), which turns verified
  or decrypted bytes back into a string. The decoder is modelled as the source writes
  it, a while loop over an index, and proved equal to a structural reference decoder
  \<open>decode_ref\<close>; the round-trip theorems are proved about the reference.
\<close>

section \<open>UTF-8 encoding of a JavaScript string\<close>

text \<open>
  \<^verbatim>\<open>decodeUTF8(s)\<close> is \<^verbatim>\<open>unescape(encodeURIComponent(s))\<close>: the string's code points
  in UTF-8. A surrogate pair is one supplementary code point (four bytes); a lone
  surrogate makes \<^verbatim>\<open>encodeURIComponent\<close> throw \<^verbatim>\<open>URIError\<close>.
\<close>

definition is_high_surrogate :: "code_unit \<Rightarrow> bool" where
  "is_high_surrogate u \<longleftrightarrow> 0xD800 \<le> unat u \<and> unat u \<le> 0xDBFF"

definition is_low_surrogate :: "code_unit \<Rightarrow> bool" where
  "is_low_surrogate u \<longleftrightarrow> 0xDC00 \<le> unat u \<and> unat u \<le> 0xDFFF"

definition is_surrogate :: "code_unit \<Rightarrow> bool" where
  "is_surrogate u \<longleftrightarrow> 0xD800 \<le> unat u \<and> unat u \<le> 0xDFFF"

definition utf8_bytes :: "nat \<Rightarrow> bytes" where
  "utf8_bytes cp = map word_of_nat
     (if cp < 0x80 then [cp]
      else if cp < 0x800 then [0xC0 + cp div 64, 0x80 + cp mod 64]
      else if cp < 0x10000 then [0xE0 + cp div 4096, 0x80 + cp div 64 mod 64, 0x80 + cp mod 64]
      else [0xF0 + cp div 262144, 0x80 + cp div 4096 mod 64, 0x80 + cp div 64 mod 64,
            0x80 + cp mod 64])"

definition pair_code_point :: "code_unit \<Rightarrow> code_unit \<Rightarrow> nat" where
  "pair_code_point hi lo = 0x10000 + (unat hi - 0xD800) * 1024 + (unat lo - 0xDC00)"

fun decodeUTF8 :: "jsstr \<Rightarrow> bytes js" where
  "decodeUTF8 [] = Inr []"
| "decodeUTF8 (u # us) =
     (if is_low_surrogate u then Inl MalformedURI
      else if is_high_surrogate u then
        (case us of
           [] \<Rightarrow> Inl MalformedURI
         | lo # us' \<Rightarrow>
             (if is_low_surrogate lo
              then mapE ((@) (utf8_bytes (pair_code_point u lo))) (decodeUTF8 us')
              else Inl MalformedURI))
      else mapE ((@) (utf8_bytes (unat u))) (decodeUTF8 us))"

section \<open>The decoder of the source\<close>

text \<open>
  \<^verbatim>\<open>String.fromCharCode(x)\<close> keeps \<^verbatim>\<open>x\<close> modulo \<open>2^16\<close> (ToUint16). Reading
  \<^verbatim>\<open>array[i]\<close> past the end gives \<^verbatim>\<open>undefined\<close>, and \<^verbatim>\<open>undefined & 0x3F\<close> is 0:
  \<open>elem_or_zero\<close> is that read as the masked expressions see it.
\<close>

definition fromCharCode :: "nat \<Rightarrow> code_unit" where
  "fromCharCode x = word_of_nat x"

definition elem_or_zero :: "bytes \<Rightarrow> nat \<Rightarrow> nat" where
  "elem_or_zero arr i = (if i < length arr then unat (arr ! i) else 0)"

text \<open>The two multi-byte expressions of the \<^verbatim>\<open>switch\<close> (lines 64 and 70--72).\<close>

definition code2 :: "nat \<Rightarrow> nat \<Rightarrow> nat" where
  "code2 c char2 = push_bit 6 (c AND 0x1F) OR (char2 AND 0x3F)"

definition code3 :: "nat \<Rightarrow> nat \<Rightarrow> nat \<Rightarrow> nat" where
  "code3 c char2 char3 =
     (push_bit 12 (c AND 0x0F) OR push_bit 6 (char2 AND 0x3F)) OR push_bit 0 (char3 AND 0x3F)"

text \<open>
  One iteration of the \<^verbatim>\<open>while\<close> loop at index \<open>i < len\<close>: the new index and the
  code units appended to \<^verbatim>\<open>out\<close>. A lead byte whose high nibble is 8--11 or 15 matches
  no \<^verbatim>\<open>case\<close> and is skipped.
\<close>

definition decoder_step :: "bytes \<Rightarrow> nat \<Rightarrow> nat \<times> jsstr" where
  "decoder_step arr i =
     (let c = unat (arr ! i) in
      if drop_bit 4 c \<le> 7 then (i + 1, [fromCharCode c])
      else if drop_bit 4 c = 12 \<or> drop_bit 4 c = 13 then
        (let char2 = elem_or_zero arr (i + 1)
         in (i + 2, [fromCharCode (code2 c char2)]))
      else if drop_bit 4 c = 14 then
        (let char2 = elem_or_zero arr (i + 1); char3 = elem_or_zero arr (i + 2)
         in (i + 3, [fromCharCode (code3 c char2 char3)]))
      else (i + 1, []))"

lemma decoder_step_advances: "i < fst (decoder_step arr i)"
  by (simp add: decoder_step_def Let_def)

function decoder_loop :: "bytes \<Rightarrow> nat \<Rightarrow> jsstr \<Rightarrow> jsstr" where
  "decoder_loop arr i out =
     (if i < length arr
      then (case decoder_step arr i of (i', s) \<Rightarrow> decoder_loop arr i' (out @ s))
      else out)"
  by pat_completeness auto
termination
  by (relation "measure (\<lambda>(arr, i, out). length arr - i)")
     (auto simp: decoder_step_def Let_def split: if_splits)

declare decoder_loop.simps [simp del]

text \<open>
  \<^verbatim>\<open>_decoder(array)\<close>: the loop from index 0 with \<^verbatim>\<open>out = ""\<close>. Called with
  \<^verbatim>\<open>null\<close> (what \<^verbatim>\<open>nacl.box.open\<close> and \<^verbatim>\<open>nacl.secretbox.open\<close> return on failure) it
  throws when it reads \<^verbatim>\<open>array.length\<close>.
\<close>

definition decoder :: "bytes option \<Rightarrow> jsstr js" where
  "decoder arr = (case arr of None \<Rightarrow> Inl NullProperty | Some a \<Rightarrow> Inr (decoder_loop a 0 []))"

section \<open>A structural reference decoder\<close>

text \<open>
  The decoder as a state machine over byte-length classes: a lead byte is a one-byte
  character, the lead of a two- or three-byte form, or skipped; a continuation byte
  contributes its low six bits, and a missing one contributes 0.
\<close>

datatype byte_class = Single | Lead2 | Lead3 | Skipped

definition byte_class :: "byte \<Rightarrow> byte_class" where
  "byte_class b =
     (if unat b div 16 \<le> 7 then Single
      else if unat b div 16 = 12 \<or> unat b div 16 = 13 then Lead2
      else if unat b div 16 = 14 then Lead3
      else Skipped)"

definition cont :: "bytes \<Rightarrow> nat" where
  "cont bs = (case bs of [] \<Rightarrow> 0 | b # _ \<Rightarrow> unat b mod 64)"

fun decode_ref :: "bytes \<Rightarrow> jsstr" where
  "decode_ref [] = []"
| "decode_ref (b # bs) =
     (case byte_class b of
        Single \<Rightarrow> word_of_nat (unat b) # decode_ref bs
      | Lead2 \<Rightarrow> word_of_nat ((unat b mod 32) * 64 + cont bs) # decode_ref (drop 1 bs)
      | Lead3 \<Rightarrow> word_of_nat ((unat b mod 16) * 4096 + cont bs * 64 + cont (drop 1 bs))
                   # decode_ref (drop 2 bs)
      | Skipped \<Rightarrow> decode_ref bs)"

section \<open>Decoder lemmas\<close>

lemma code2_arith: "code2 c char2 = (c mod 32) * 64 + char2 mod 64"
  unfolding code2_def and_numeral_masks push_bit_or_small [of "char2 mod 64" 6, simplified]
  by simp

lemma code3_arith: "code3 c char2 char3 = (c mod 16) * 4096 + (char2 mod 64) * 64 + char3 mod 64"
proof -
  have "push_bit 12 (c mod 16) OR push_bit 6 (char2 mod 64) = (c mod 16) * 4096 + (char2 mod 64) * 64"
    using push_bit_or_small [of "push_bit 6 (char2 mod 64)" 12 "c mod 16"]
    by (simp add: push_bit_eq_mult)
  moreover have "((c mod 16) * 64 + char2 mod 64) * 64 = (c mod 16) * 4096 + (char2 mod 64) * 64"
    by simp
  ultimately show ?thesis
    unfolding code3_def and_numeral_masks
    using push_bit_or_small [of "char3 mod 64" 6 "(c mod 16) * 64 + char2 mod 64"]
    by (simp add: push_bit_eq_mult ac_simps)
qed

lemma cont_drop: "cont (drop j arr) = elem_or_zero arr j mod 64"
  by (cases "j < length arr") (simp_all add: cont_def elem_or_zero_def Cons_nth_drop_Suc [symmetric])

lemma decode_ref_drop_step:
  assumes "i < length arr"
  shows "decode_ref (drop i arr) = snd (decoder_step arr i) @ decode_ref (drop (fst (decoder_step arr i)) arr)"
proof -
  have d: "drop i arr = arr ! i # drop (Suc i) arr" using assms by (rule Cons_nth_drop_Suc [symmetric])
  show ?thesis
    by (simp add: d decoder_step_def byte_class_def Let_def fromCharCode_def code2_arith code3_arith
        cont_drop drop_bit_nat_div add.commute numeral_3_eq_3)
qed

lemma decoder_loop_ref: "decoder_loop arr i out = out @ decode_ref (drop i arr)"
proof (induction arr i out rule: decoder_loop.induct)
  case (1 arr i out)
  show ?case
  proof (cases "i < length arr")
    case True
    obtain i' s where st: "decoder_step arr i = (i', s)" by fastforce
    with True "1.IH" have "decoder_loop arr i' (out @ s) = (out @ s) @ decode_ref (drop i' arr)"
      by simp
    with True st show ?thesis
      by (simp add: decoder_loop.simps [of arr i out] decode_ref_drop_step)
  next
    case False
    then show ?thesis by (simp add: decoder_loop.simps [of arr i out])
  qed
qed


lemma byte_class_of_nat:
  "n < 256 \<Longrightarrow> byte_class (word_of_nat n) =
     (if n div 16 \<le> 7 then Single else if n div 16 = 12 \<or> n div 16 = 13 then Lead2
      else if n div 16 = 14 then Lead3 else Skipped)"
  by (simp add: byte_class_def)

lemma cont_cons_of_nat: "n < 256 \<Longrightarrow> cont (word_of_nat n # bs) = n mod 64"
  by (simp add: cont_def)

lemma continuation_skipped: "(128 + k mod 64) div 16 \<in> {8, 9, 10, 11::nat}"
proof -
  have "(8 * 16 + k mod 64) div 16 = 8 + k mod 64 div 16" by (rule offset_div) simp
  moreover have "k mod 64 div 16 < 4" by simp
  ultimately show ?thesis by auto
qed

lemma byte_class_continuation: "byte_class (word_of_nat (128 + k mod 64)) = Skipped"
proof -
  have "128 + k mod 64 < 256" by simp
  with continuation_skipped [of k] show ?thesis
    by (auto simp add: byte_class_of_nat simp del: of_nat_add)
qed

lemma continuation_payload: "(128 + k mod 64) mod 64 = (k::nat) mod 64"
  using offset_mod [of 2 64 "k mod 64"] by simp

lemma decode_ref_utf8_bytes:
  assumes "cp < 0x110000"
  shows "decode_ref (utf8_bytes cp @ rest) =
    (if cp < 0x10000 then [word_of_nat cp] else []) @ decode_ref rest"
proof (cases "cp < 0x80")
  case True
  then show ?thesis by (simp add: utf8_bytes_def byte_class_of_nat)
next
  case c1: False
  show ?thesis
  proof (cases "cp < 0x800")
    case True
    then have q: "cp div 64 < 32" by simp
    have "(12 * 16 + cp div 64) div 16 = 12 + cp div 64 div 16" by (rule offset_div) simp
    moreover have "cp div 64 div 16 < 2" using q by simp
    ultimately have h: "(192 + cp div 64) div 16 = 12 \<or> (192 + cp div 64) div 16 = 13"
      by auto
    have "(6 * 32 + cp div 64) mod 32 = cp div 64 mod 32" by (rule offset_mod)
    with q have m: "(192 + cp div 64) mod 32 = cp div 64" by simp
    from True c1 h m show ?thesis
      by (auto simp add: utf8_bytes_def byte_class_of_nat cont_cons_of_nat continuation_payload simp del: of_nat_add)
  next
    case c2: False
    show ?thesis
    proof (cases "cp < 0x10000")
      case True
      then have q: "cp div 4096 < 16" by simp
      have "(14 * 16 + cp div 4096) div 16 = 14 + cp div 4096 div 16" by (rule offset_div) simp
      with q have h: "(224 + cp div 4096) div 16 = 14" by simp
      have "(14 * 16 + cp div 4096) mod 16 = cp div 4096 mod 16" by (rule offset_mod)
      with q have m: "(224 + cp div 4096) mod 16 = cp div 4096" by simp
      from True c1 c2 h m show ?thesis
        by (simp add: utf8_bytes_def byte_class_of_nat cont_cons_of_nat numeral_2_eq_2
            base4096_digits continuation_payload del: of_nat_add)
    next
      case False
      have "(15 * 16 + cp div 262144) div 16 = 15 + cp div 262144 div 16" by (rule offset_div) simp
      moreover have "cp div 262144 < 16" using assms by simp
      ultimately have "(240 + cp div 262144) div 16 = 15" "240 + cp div 262144 < 256"
        by simp_all
      then show ?thesis using c1 c2 False
        by (simp add: utf8_bytes_def byte_class_of_nat byte_class_continuation del: of_nat_add)
    qed
  qed
qed
lemma pair_code_point_range:
  "is_high_surrogate hi \<Longrightarrow> is_low_surrogate lo \<Longrightarrow>
   0x10000 \<le> pair_code_point hi lo \<and> pair_code_point hi lo < 0x110000"
  by (auto simp add: pair_code_point_def is_high_surrogate_def is_low_surrogate_def)

lemma surrogate_cases:
  "is_surrogate u \<longleftrightarrow> is_high_surrogate u \<or> is_low_surrogate u"
  by (auto simp add: is_surrogate_def is_high_surrogate_def is_low_surrogate_def)

lemma decode_ref_decodeUTF8:
  "decodeUTF8 s = Inr bs \<Longrightarrow> decode_ref bs = filter (\<lambda>u. \<not> is_surrogate u) s"
proof (induction s arbitrary: bs rule: decodeUTF8.induct)
  case 1
  then show ?case by simp
next
  case (2 u us)
  show ?case
  proof (cases "is_low_surrogate u \<or> is_high_surrogate u")
    case True
    with "2.prems" obtain lo us' bs' where us: "us = lo # us'" and hi: "is_high_surrogate u"
      and lo: "is_low_surrogate lo" and rest: "decodeUTF8 us' = Inr bs'"
      and bs: "bs = utf8_bytes (pair_code_point u lo) @ bs'"
      by (auto split: if_splits list.splits sum.splits simp: mapE_def bindE_def)
    have "decode_ref bs' = filter (\<lambda>u. \<not> is_surrogate u) us'"
      using "2.IH"(1) hi lo us rest True by (auto simp: is_low_surrogate_def is_high_surrogate_def)
    with pair_code_point_range [OF hi lo] hi lo show ?thesis
      by (simp add: us bs decode_ref_utf8_bytes surrogate_cases)
  next
    case False
    with "2.prems" obtain bs' where rest: "decodeUTF8 us = Inr bs'"
      and bs: "bs = utf8_bytes (unat u) @ bs'"
      by (auto split: sum.splits simp: mapE_def bindE_def)
    have "decode_ref bs' = filter (\<lambda>u. \<not> is_surrogate u) us"
      using "2.IH"(2) False rest by simp
    moreover have "unat u < 0x110000" using unat_code_unit_less [of u] by linarith
    ultimately show ?thesis using False
      by (simp add: bs decode_ref_utf8_bytes surrogate_cases)
  qed
qed

lemma decodeUTF8_no_surrogates:
  "list_all (\<lambda>u. \<not> is_surrogate u) s \<Longrightarrow> decodeUTF8 s = Inr (concat (map (\<lambda>u. utf8_bytes (unat u)) s))"
  by (induction s) (auto simp: surrogate_cases)

lemma decodeUTF8_decoder_id:
  "list_all (\<lambda>u. \<not> is_surrogate u) s \<Longrightarrow>
   decodeUTF8 s = Inr (concat (map (\<lambda>u. utf8_bytes (unat u)) s)) \<and>
   decoder (Some (concat (map (\<lambda>u. utf8_bytes (unat u)) s))) = Inr s"
proof -
  assume ok: "list_all (\<lambda>u. \<not> is_surrogate u) s"
  then have e: "decodeUTF8 s = Inr (concat (map (\<lambda>u. utf8_bytes (unat u)) s))"
    by (rule decodeUTF8_no_surrogates)
  from ok have "filter (\<lambda>u. \<not> is_surrogate u) s = s" by (simp add: list_all_iff)
  with decode_ref_decodeUTF8 [OF e] e show ?thesis by (simp add: decoder_def decoder_loop_ref)
qed

lemma decodeUTF8_lone_surrogate: "is_surrogate u \<Longrightarrow> decodeUTF8 [u] = Inl MalformedURI"
  by (simp add: is_surrogate_def is_low_surrogate_def is_high_surrogate_def)

section \<open>Properties of the decoder\<close>

text \<open>
  C6: The source's index-based \<^verbatim>\<open>while\<close> loop computes the structural reference
  decoder: \<^verbatim>\<open>_decoder(array)\<close> returns \<open>decode_ref array\<close> for every byte array.
\<close>

theorem decoder_loop_equiv: "decoder (Some arr) = Inr (decode_ref arr)"
  by (simp add: decoder_def decoder_loop_ref)

text \<open>
  C5: Decoding the UTF-8 bytes that \<^verbatim>\<open>nacl.util.decodeUTF8\<close> produced for a string gives
  the string back with every surrogate code unit removed: one-, two- and three-byte
  forms round-trip, the four-byte form of a supplementary character is skipped.
\<close>

theorem decoder_decodeUTF8:
  "decodeUTF8 s = Inr bs \<Longrightarrow> decoder (Some bs) = Inr (filter (\<lambda>u. \<not> is_surrogate u) s)"
  by (simp add: decoder_def decoder_loop_ref decode_ref_decodeUTF8)

theorem decoder_decodeUTF8_witness:
  "decodeUTF8 [0x68, 0xE9, 0x20AC] = Inr [0x68, 0xC3, 0xA9, 0xE2, 0x82, 0xAC] \<and>
   decoder (Some [0x68, 0xC3, 0xA9, 0xE2, 0x82, 0xAC]) = Inr [0x68, 0xE9, 0x20AC]"
proof -
  have e: "decodeUTF8 [0x68, 0xE9, 0x20AC] = Inr [0x68, 0xC3, 0xA9, 0xE2, 0x82, 0xAC]"
    by (simp add: is_low_surrogate_def is_high_surrogate_def utf8_bytes_def)
  have "filter (\<lambda>u. \<not> is_surrogate u) [0x68, 0xE9, 0x20AC::code_unit] = [0x68, 0xE9, 0x20AC]"
    by (simp add: is_surrogate_def)
  with decoder_decodeUTF8 [OF e] e show ?thesis by simp
qed

text \<open>
  C23: The numbers the decoder hands to \<^verbatim>\<open>String.fromCharCode\<close> stay below
  \<open>2^16\<close> (two-byte forms below \<open>0x800\<close>), so its ToUint16 truncation never changes a
  decoded character.
\<close>

theorem decoder_code_bounds:
  "code2 c char2 < 0x800 \<and> code3 c char2 char3 < 0x10000 \<and>
   unat (fromCharCode (code3 c char2 char3)) = code3 c char2 char3"
proof -
  have b2: "code2 c char2 < 0x800" by (simp add: code2_arith)
  have b3: "code3 c char2 char3 < 0x10000" by (simp add: code3_arith)
  then have "unat (fromCharCode (code3 c char2 char3)) = code3 c char2 char3"
    by (simp add: fromCharCode_def)
  with b2 b3 show ?thesis by simp
qed


text \<open>
  C25: Best-effort decoding: a byte that is neither a one-byte character nor the lead
  of a two- or three-byte form (a stray continuation byte or a four-byte lead) is
  dropped without an error, and decoding goes on with the next byte.
\<close>

theorem decoder_skips_invalid_lead:
  "byte_class c = Skipped \<Longrightarrow> decoder (Some (c # bs)) = decoder (Some bs)"
  by (simp add: decoder_def decoder_loop_ref)

theorem decoder_skips_invalid_lead_witness:
  "byte_class 0x80 = Skipped \<and> decoder (Some [0x80, 0x41]) = decoder (Some [0x41])"
proof -
  have c: "byte_class 0x80 = Skipped" by (simp add: byte_class_def)
  show ?thesis using c decoder_skips_invalid_lead [OF c, of "[0x41]"] by simp
qed

text \<open>
  C26: A multi-byte form cut short at the end of the array is not an error: the
  missing continuation bytes are read as \<^verbatim>\<open>undefined\<close>, which the masks turn into
  zero bits, and a character is still produced.
\<close>

theorem decoder_truncated_lead:
  "byte_class c = Lead2 \<Longrightarrow> byte_class c' = Lead3 \<Longrightarrow>
   decoder (Some [c]) = Inr [fromCharCode ((unat c mod 32) * 64)] \<and>
   decoder (Some [c', d]) = Inr [fromCharCode ((unat c' mod 16) * 4096 + (unat d mod 64) * 64)]"
  by (simp add: decoder_def decoder_loop_ref cont_def fromCharCode_def)

theorem decoder_truncated_lead_witness:
  "byte_class 0xC3 = Lead2 \<and> byte_class 0xE2 = Lead3 \<and>
   decoder (Some [0xC3]) = Inr [0xC0] \<and> decoder (Some [0xE2, 0x82]) = Inr [0x2080]"
proof -
  have a: "byte_class 0xC3 = Lead2" "byte_class 0xE2 = Lead3" by (simp_all add: byte_class_def)
  show ?thesis using a decoder_truncated_lead [OF a, of "0x82"] by (simp add: fromCharCode_def)
qed

end
