(* ===== verification/Base64.thy ===== *)
theory Base64
  imports Prelude
begin

text \<open>
  Base64 as \<^verbatim>\<open>nacl.util.encodeBase64\<close> and \<^verbatim>\<open>nacl.util.decodeBase64\<close> implement it
  (modelled from the spec: standard alphabet, \<^verbatim>\<open>=\<close> padding). Decoding first checks
  the string against the library's regular expression
  \<^verbatim>\<open>^(?:[A-Za-z0-9+/]{4})*(?:[A-Za-z0-9+/]{2}==|[A-Za-z0-9+/]{3}=)?$\<close> and throws
  \<^verbatim>\<open>TypeError('invalid encoding')\<close> if it fails; it then decodes like \<^verbatim>\<open>atob\<close>, which
  discards the bits of a final padded group that do not fill a byte.
\<close>

definition b64_digit :: "nat \<Rightarrow> code_unit" where
  "b64_digit n = word_of_nat
     (if n < 26 then 65 + n else if n < 52 then 71 + n else if n < 62 then n - 4
      else if n = 62 then 43 else 47)"

definition b64_value :: "code_unit \<Rightarrow> nat option" where
  "b64_value c =
     (let x = unat c in
      if 65 \<le> x \<and> x \<le> 90 then Some (x - 65)
      else if 97 \<le> x \<and> x \<le> 122 then Some (x - 71)
      else if 48 \<le> x \<and> x \<le> 57 then Some (x + 4)
      else if x = 43 then Some 62
      else if x = 47 then Some 63
      else None)"

abbreviation pad :: code_unit where "pad \<equiv> 61"

fun encodeBase64 :: "bytes \<Rightarrow> jsstr" where
  "encodeBase64 (a # b # c # rest) =
     [b64_digit (unat a div 4), b64_digit (unat a mod 4 * 16 + unat b div 16),
      b64_digit (unat b mod 16 * 4 + unat c div 64), b64_digit (unat c mod 64)] @ encodeBase64 rest"
| "encodeBase64 [a, b] =
     [b64_digit (unat a div 4), b64_digit (unat a mod 4 * 16 + unat b div 16),
      b64_digit (unat b mod 16 * 4), pad]"
| "encodeBase64 [a] = [b64_digit (unat a div 4), b64_digit (unat a mod 4 * 16), pad, pad]"
| "encodeBase64 [] = []"

text \<open>
  A group of four digits is three bytes; the last group of the string may instead
  end in \<^verbatim>\<open>==\<close> (one byte) or \<^verbatim>\<open>=\<close> (two bytes), and the bits of its last digit
  that do not fill a byte are dropped.
\<close>

definition b64_full :: "code_unit \<Rightarrow> code_unit \<Rightarrow> code_unit \<Rightarrow> code_unit \<Rightarrow> bytes option" where
  "b64_full c1 c2 c3 c4 =
     (case (b64_value c1, b64_value c2, b64_value c3, b64_value c4) of
        (Some v1, Some v2, Some v3, Some v4) \<Rightarrow>
          Some [word_of_nat (v1 * 4 + v2 div 16), word_of_nat (v2 mod 16 * 16 + v3 div 4),
                word_of_nat (v3 mod 4 * 64 + v4)]
      | _ \<Rightarrow> None)"

definition b64_last :: "code_unit \<Rightarrow> code_unit \<Rightarrow> code_unit \<Rightarrow> code_unit \<Rightarrow> bytes option" where
  "b64_last c1 c2 c3 c4 =
     (if c3 = pad \<and> c4 = pad then
        (case (b64_value c1, b64_value c2) of
           (Some v1, Some v2) \<Rightarrow> Some [word_of_nat (v1 * 4 + v2 div 16)]
         | _ \<Rightarrow> None)
      else if c4 = pad then
        (case (b64_value c1, b64_value c2, b64_value c3) of
           (Some v1, Some v2, Some v3) \<Rightarrow>
             Some [word_of_nat (v1 * 4 + v2 div 16), word_of_nat (v2 mod 16 * 16 + v3 div 4)]
         | _ \<Rightarrow> None)
      else b64_full c1 c2 c3 c4)"

fun b64_decode :: "jsstr \<Rightarrow> bytes option" where
  "b64_decode [] = Some []"
| "b64_decode (c1 # c2 # c3 # c4 # rest) =
     (if rest = [] then b64_last c1 c2 c3 c4
      else (case b64_full c1 c2 c3 c4 of
              None \<Rightarrow> None
            | Some bs \<Rightarrow> map_option ((@) bs) (b64_decode rest)))"
| "b64_decode _ = None"

definition decodeBase64 :: "jsstr \<Rightarrow> bytes js" where
  "decodeBase64 s = (case b64_decode s of None \<Rightarrow> Inl InvalidEncoding | Some bs \<Rightarrow> Inr bs)"

section \<open>Base64 lemmas\<close>

lemma byte_div_bounds: "unat (b::byte) div 4 < 64" "unat b div 16 < 16" "unat b div 64 < 4"
  using unat_byte_less [of b] by (simp_all add: less_mult_imp_div_less)

lemma unat_b64_digit:
  "unat (b64_digit n) = (if n < 26 then 65 + n else if n < 52 then 71 + n else if n < 62 then n - 4
      else if n = 62 then 43 else 47) \<or> \<not> n < 64"
  by (auto simp add: b64_digit_def unat_of_nat)

lemma b64_value_digit: "n < 64 \<Longrightarrow> b64_value (b64_digit n) = Some n"
proof -
  assume n: "n < 64"
  then have u: "unat (b64_digit n) = (if n < 26 then 65 + n else if n < 52 then 71 + n else if n < 62 then n - 4
      else if n = 62 then 43 else 47)" using unat_b64_digit [of n] by simp
  consider "n < 26" | "26 \<le> n" "n < 52" | "52 \<le> n" "n < 62" | "n = 62" | "n = 63"
    using n by linarith
  then show ?thesis
    using u by cases (auto simp: b64_value_def Let_def)
qed

lemma b64_digit_not_pad: "n < 64 \<Longrightarrow> b64_digit n \<noteq> pad"
proof
  assume "n < 64" "b64_digit n = pad"
  then have "b64_value pad = Some n" using b64_value_digit by metis
  then show False by (simp add: b64_value_def)
qed

lemma b64_full_digits:
  assumes "v1 < 64" "v2 < 64" "v3 < 64" "v4 < 64"
  shows "b64_full (b64_digit v1) (b64_digit v2) (b64_digit v3) (b64_digit v4) =
    Some [word_of_nat (v1 * 4 + v2 div 16), word_of_nat (v2 mod 16 * 16 + v3 div 4),
          word_of_nat (v3 mod 4 * 64 + v4)]"
  using assms by (simp add: b64_full_def b64_value_digit)

lemma sextet_bounds:
  "unat a mod 4 * 16 + unat (b::byte) div 16 < 64" "unat b mod 16 * 4 + unat (c::byte) div 64 < 64"
  "unat (a::byte) mod 4 * 16 < 64" "unat (b::byte) mod 16 * 4 < 64"
proof -
  have "unat b div 16 < 16" "unat c div 64 < 4" by (simp_all add: byte_div_bounds)
  moreover have "unat a mod 4 \<le> 3" "unat b mod 16 \<le> 15" by simp_all
  ultimately show "unat a mod 4 * 16 + unat (b::byte) div 16 < 64"
    "unat b mod 16 * 4 + unat (c::byte) div 64 < 64" "unat (a::byte) mod 4 * 16 < 64"
    "unat (b::byte) mod 16 * 4 < 64" by linarith+
qed

lemma regroup_bytes:
  "word_of_nat (unat (a::byte) div 4 * 4 + (unat a mod 4 * 16 + unat (b::byte) div 16) div 16) = a"
  "word_of_nat ((unat a mod 4 * 16 + unat b div 16) mod 16 * 16 + (unat b mod 16 * 4 + unat (c::byte) div 64) div 4) = b"
  "word_of_nat ((unat b mod 16 * 4 + unat c div 64) mod 4 * 64 + unat c mod 64) = c"
proof -
  have b: "unat b div 16 < 16" and c: "unat c div 64 < 4" by (simp_all add: byte_div_bounds)
  have "(unat a mod 4 * 16 + unat b div 16) div 16 = unat a mod 4 + unat b div 16 div 16"
    by (rule offset_div) simp
  with b have "unat a div 4 * 4 + (unat a mod 4 * 16 + unat b div 16) div 16 = unat a" by simp
  then show "word_of_nat (unat a div 4 * 4 + (unat a mod 4 * 16 + unat b div 16) div 16) = a"
    by simp
  have "(unat a mod 4 * 16 + unat b div 16) mod 16 = unat b div 16 mod 16" by (rule offset_mod)
  moreover have "(unat b mod 16 * 4 + unat c div 64) div 4 = unat b mod 16 + unat c div 64 div 4"
    by (rule offset_div) simp
  ultimately have "(unat a mod 4 * 16 + unat b div 16) mod 16 * 16 + (unat b mod 16 * 4 + unat c div 64) div 4 = unat b"
    using b c by simp
  then show "word_of_nat ((unat a mod 4 * 16 + unat b div 16) mod 16 * 16 + (unat b mod 16 * 4 + unat (c::byte) div 64) div 4) = b"
    by simp
  have "(unat b mod 16 * 4 + unat c div 64) mod 4 = unat c div 64 mod 4" by (rule offset_mod)
  with c have "(unat b mod 16 * 4 + unat c div 64) mod 4 * 64 + unat c mod 64 = unat c" by simp
  then show "word_of_nat ((unat b mod 16 * 4 + unat c div 64) mod 4 * 64 + unat c mod 64) = c" by simp
qed

lemma byte_mod64: "unat (c::byte) mod 64 < 64" by simp

lemma b64_full_bytes: "b64_full (b64_digit (unat a div 4)) (b64_digit (unat a mod 4 * 16 + unat b div 16))
    (b64_digit (unat b mod 16 * 4 + unat c div 64)) (b64_digit (unat c mod 64)) = Some [a, b, c]"
  by (simp only: b64_full_digits [OF byte_div_bounds(1) sextet_bounds(1,2) byte_mod64] regroup_bytes)

lemma encodeBase64_Nil_iff: "encodeBase64 bs = [] \<longleftrightarrow> bs = []"
  by (cases bs rule: encodeBase64.cases) simp_all

lemma group3: "b64_decode (encodeBase64 (a # b # c # rest)) =
    map_option ((@) [a, b, c]) (b64_decode (encodeBase64 rest))"
proof (cases "rest = []")
  case True
  then show ?thesis
    using b64_full_bytes [of a b c] b64_digit_not_pad [OF byte_mod64, of c]
    by (simp add: b64_last_def)
next
  case False
  then show ?thesis using b64_full_bytes [of a b c] by (simp add: encodeBase64_Nil_iff)
qed

lemma group2: "b64_decode (encodeBase64 [a, b]) = Some [a, b]"
proof -
  have v: "unat (a::byte) div 4 < 64" "unat a mod 4 * 16 + unat (b::byte) div 16 < 64" "unat b mod 16 * 4 < 64"
    by (simp_all only: byte_div_bounds sextet_bounds)
  have "b64_decode (encodeBase64 [a, b]) = Some [word_of_nat (unat a div 4 * 4 + (unat a mod 4 * 16 + unat b div 16) div 16),
     word_of_nat ((unat a mod 4 * 16 + unat b div 16) mod 16 * 16 + (unat b mod 16 * 4) div 4)]"
    using v b64_digit_not_pad [OF v(3)] by (simp add: b64_last_def b64_value_digit del: of_nat_add of_nat_mult)
  then show ?thesis using regroup_bytes(1) [of a b] regroup_bytes(2) [of a b 0] by simp
qed

lemma group1: "b64_decode (encodeBase64 [a]) = Some [a]"
proof -
  have v: "unat (a::byte) div 4 < 64" "unat a mod 4 * 16 < 64"
    by (simp_all only: byte_div_bounds sextet_bounds)
  have "b64_decode (encodeBase64 [a]) = Some [word_of_nat (unat a div 4 * 4 + (unat a mod 4 * 16) div 16)]"
    using v by (simp add: b64_last_def b64_value_digit del: of_nat_add of_nat_mult)
  then show ?thesis using regroup_bytes(1) [of a 0] by simp
qed

lemma b64_decode_encode: "b64_decode (encodeBase64 bs) = Some bs"
proof (induction bs rule: encodeBase64.induct)
  case (1 a b c rest)
  then show ?case by (simp only: group3 option.map append_Cons append_Nil)
qed (simp_all only: group2 group1 encodeBase64.simps(4) b64_decode.simps(1))

lemma div3_step: "(5 + n) div 3 = Suc (Suc (Suc n) div 3)"
  using offset_div [of 3 1 "Suc (Suc n)"] by simp

lemma length_encodeBase64: "length (encodeBase64 bs) = 4 * ((length bs + 2) div 3)"
  by (induction bs rule: encodeBase64.induct) (simp_all add: div3_step)

lemma b64_decode_length: "b64_decode s = Some bs \<Longrightarrow> length s mod 4 = 0"
proof (induction s arbitrary: bs rule: b64_decode.induct)
  case (2 c1 c2 c3 c4 rest)
  show ?case
  proof (cases "rest = []")
    case False
    with "2.prems" obtain g bs' where "b64_full c1 c2 c3 c4 = Some g" "b64_decode rest = Some bs'"
      by (auto split: option.splits)
    with "2.IH" False have "length rest mod 4 = 0" by blast
    then show ?thesis by simp
  qed simp
qed simp_all

section \<open>Properties of the base64 codec\<close>

text \<open>
  Every byte array survives the base64 encoding of the wire format, and a string
  whose length is not a multiple of four is rejected.
\<close>

lemma decodeBase64_encodeBase64: "decodeBase64 (encodeBase64 bs) = Inr bs"
  by (simp add: decodeBase64_def b64_decode_encode)

lemma decodeBase64_bad_length:
  "length s mod 4 \<noteq> 0 \<Longrightarrow> decodeBase64 s = Inl InvalidEncoding"
  using b64_decode_length [of s] by (cases "b64_decode s") (auto simp: decodeBase64_def)

text \<open>
  Base64 decoding is not injective: the string that differs from
  \<open>encodeBase64 [a]\<close> in the unused low bits of its second digit decodes to
  \<open>[a]\<close> as well, and so does any string with that final group.
\<close>

lemma last_group_second_encoding:
  "[b64_digit (unat a div 4), b64_digit (unat a mod 4 * 16 + 1), pad, pad] \<noteq> encodeBase64 [a] \<and>
   b64_decode [b64_digit (unat a div 4), b64_digit (unat a mod 4 * 16 + 1), pad, pad] = Some [a]"
proof
  have v: "unat a div 4 < 64" "unat a mod 4 * 16 + 1 < 64" "unat a mod 4 * 16 < 64"
    using sextet_bounds(3) [of a] by (simp_all add: byte_div_bounds)
  have "b64_digit (unat a mod 4 * 16 + 1) \<noteq> b64_digit (unat a mod 4 * 16)"
    using b64_value_digit [OF v(2)] b64_value_digit [OF v(3)] by auto
  then show "[b64_digit (unat a div 4), b64_digit (unat a mod 4 * 16 + 1), pad, pad] \<noteq> encodeBase64 [a]"
    by simp
  have "(unat a mod 4 * 16 + 1) div 16 = unat a mod 4"
    using offset_div [of 16 "unat a mod 4" 1] by simp
  then have "word_of_nat (unat a div 4 * 4 + (unat a mod 4 * 16 + 1) div 16) = a"
    by simp
  then show "b64_decode [b64_digit (unat a div 4), b64_digit (unat a mod 4 * 16 + 1), pad, pad] = Some [a]"
    using v by (simp add: b64_last_def b64_value_digit del: of_nat_add of_nat_mult)
qed

lemma b64_decode_encode_append:
  "length pre mod 3 = 0 \<Longrightarrow> t \<noteq> [] \<Longrightarrow>
   b64_decode (encodeBase64 pre @ t) = map_option ((@) pre) (b64_decode t)"
proof (induction pre rule: encodeBase64.induct)
  case (1 a b c rest)
  then have "encodeBase64 rest @ t \<noteq> []" by simp
  with "1.IH" "1.prems" show ?case
    by (simp add: b64_full_bytes option.map_comp comp_def)
next
  case 4
  show ?case by (cases "b64_decode t") simp_all
qed simp_all

lemma encodeBase64_append:
  "length pre mod 3 = 0 \<Longrightarrow> encodeBase64 (pre @ rest) = encodeBase64 pre @ encodeBase64 rest"
  by (induction pre rule: encodeBase64.induct) simp_all

lemma decodeBase64_second_encoding:
  assumes "length bs mod 3 = 1"
  shows "\<exists>s. s \<noteq> encodeBase64 bs \<and> decodeBase64 s = Inr bs"
proof -
  from assms obtain pre a where bs: "bs = pre @ [a]" and pre: "length pre mod 3 = 0"
    by (cases bs rule: rev_cases) (auto simp: mod_Suc split: if_splits)
  let ?g = "[b64_digit (unat a div 4), b64_digit (unat a mod 4 * 16 + 1), pad, pad]"
  have "encodeBase64 pre @ ?g \<noteq> encodeBase64 bs"
    using last_group_second_encoding [of a] by (simp add: bs encodeBase64_append [OF pre])
  moreover have "decodeBase64 (encodeBase64 pre @ ?g) = Inr bs"
    using last_group_second_encoding [of a]
    by (simp add: decodeBase64_def b64_decode_encode_append [OF pre] bs)
  ultimately show ?thesis by blast
qed

end
