(* ===== verification/Legacy16.thy ===== *)
theory Legacy16
  imports Prelude
begin

text \<open>
  \<^verbatim>\<open>_encoder\<close> (src/saltshaker.js, lines 83--93), the step of the passphrase key
  derivation that turns the MD5 hex digest into key bytes. It allocates a
  \<^verbatim>\<open>Uint16Array\<close> of \<^verbatim>\<open>str.length\<close> zeroes, copies the code units into it in a
  \<^verbatim>\<open>for\<close> loop, and returns \<^verbatim>\<open>new Uint8Array(bufView)\<close>. That constructor, given
  a typed array, builds a new array of the same length and converts every element
  with ToUint8: it keeps the low byte of each code unit. It does not view the
  buffer's two bytes per code unit, as the spec's \<^verbatim>\<open>encodeLegacy16\<close> describes.
\<close>

function encoder_fill :: "jsstr \<Rightarrow> nat \<Rightarrow> code_unit list \<Rightarrow> code_unit list" where
  "encoder_fill str i bufView =
     (if i < length str then encoder_fill str (i + 1) (bufView[i := str ! i]) else bufView)"
  by pat_completeness auto
termination
  by (relation "measure (\<lambda>(str, i, bufView). length str - i)") auto

declare encoder_fill.simps [simp del]

definition uint8_of_uint16 :: "code_unit list \<Rightarrow> bytes" where
  "uint8_of_uint16 view = map ucast view"

definition encoder :: "jsstr \<Rightarrow> bytes" where
  "encoder str = uint8_of_uint16 (encoder_fill str 0 (replicate (length str) 0))"

section \<open>Encoder lemmas\<close>

lemma encoder_fill_copy:
  "length view = length str \<Longrightarrow> encoder_fill str i view = take i view @ drop i str"
proof (induction str i view rule: encoder_fill.induct)
  case (1 str i view)
  show ?case
  proof (cases "i < length str")
    case True
    with "1.IH" "1.prems" have "encoder_fill str (i + 1) (view[i := str ! i]) =
        take (i + 1) (view[i := str ! i]) @ drop (i + 1) str"
      by simp
    also have "\<dots> = take i view @ drop i str"
      using True "1.prems" by (simp add: take_Suc_conv_app_nth Cons_nth_drop_Suc)
    finally show ?thesis using True by (simp add: encoder_fill.simps [of str i view])
  next
    case False
    with "1.prems" show ?thesis by (simp add: encoder_fill.simps [of str i view])
  qed
qed

lemma encoder_map: "encoder str = map ucast str"
  by (simp add: encoder_def uint8_of_uint16_def encoder_fill_copy)

lemma unat_ucast_byte: "unat (ucast (u::code_unit) :: byte) = unat u mod 256"
  by (simp add: unsigned_ucast_eq take_bit_eq_mod)

lemma length_encoder [simp]: "length (encoder str) = length str"
  by (simp add: encoder_map)

lemma ascii_ucast_inj:
  "unat (u::code_unit) < 256 \<Longrightarrow> unat (v::code_unit) < 256 \<Longrightarrow>
   (ucast u :: byte) = ucast v \<Longrightarrow> u = v"
  by (metis unat_ucast_byte mod_less word_unat_eq_iff)

lemma encoder_inj_ascii:
  "list_all (\<lambda>u. unat u < 256) s \<Longrightarrow> list_all (\<lambda>u. unat u < 256) t \<Longrightarrow>
   encoder s = encoder t \<Longrightarrow> s = t"
proof (induction s arbitrary: t)
  case Nil
  then show ?case by (simp add: encoder_map)
next
  case (Cons u s)
  then obtain v t' where t: "t = v # t'" by (cases t) (auto simp: encoder_map)
  with Cons.prems have "(ucast u :: byte) = ucast v" "encoder s = encoder t'"
    by (simp_all add: encoder_map)
  with Cons t show ?case by (auto intro: ascii_ucast_inj)
qed

section \<open>Properties of the encoder\<close>

text \<open>
  C21: \<^verbatim>\<open>_encoder\<close> returns one byte per code unit, the code unit modulo 256.
\<close>

theorem encoder_low_bytes:
  "encoder str = map (\<lambda>u. word_of_nat (unat u mod 256)) str"
proof -
  have "(ucast u :: byte) = word_of_nat (unat u mod 256)" for u :: code_unit
    by (simp add: word_unat_eq_iff unat_ucast_byte)
  then show ?thesis by (simp add: encoder_map)
qed


end
