(* ===== verification/Nacl.thy ===== *)
theory Nacl
  imports Prelude
begin

text \<open>
  The trusted primitive library SaltShaker calls (spec, section 6): tweetnacl's
  Ed25519 signatures, X25519/XSalsa20-Poly1305 boxes and secret boxes, ed2curve's
  key conversion and js-md5. The mathematics of these primitives is not modelled: a
  value of the record \<open>nacl\<close> is any choice of them, and \<open>nacl_laws\<close> is the contract
  the spec states (correctness, key agreement, authenticity), so every theorem proved
  under \<open>nacl_laws lib\<close> holds for every library that keeps the contract.
  \<open>toy_nacl\<close> is one such library, used only to show that the contract can be met
  and to evaluate witnesses.

  What tweetnacl does around the primitives is modelled: its API wrappers check the
  lengths of their arguments and throw, \<^verbatim>\<open>nacl.sign.open\<close> and the \<^verbatim>\<open>open\<close>
  functions return \<^verbatim>\<open>null\<close> (\<open>None\<close>) on failure, and \<^verbatim>\<open>nacl.randomBytes\<close> draws
  from an entropy source that is threaded through the calls as explicit state.
\<close>

section \<open>The primitives and their contract\<close>

record nacl =
  sign_pk_of_seed :: "bytes \<Rightarrow> bytes"
  sign_detached :: "bytes \<Rightarrow> bytes \<Rightarrow> bytes"
  sign_valid :: "bytes \<Rightarrow> bytes \<Rightarrow> bytes \<Rightarrow> bool"
  convert_public :: "bytes \<Rightarrow> bytes option"
  convert_secret :: "bytes \<Rightarrow> bytes"
  curve_public :: "bytes \<Rightarrow> bytes"
  box_seal :: "bytes \<Rightarrow> bytes \<Rightarrow> bytes \<Rightarrow> bytes \<Rightarrow> bytes"
  box_unseal :: "bytes \<Rightarrow> bytes \<Rightarrow> bytes \<Rightarrow> bytes \<Rightarrow> bytes option"
  secretbox_seal :: "bytes \<Rightarrow> bytes \<Rightarrow> bytes \<Rightarrow> bytes"
  secretbox_unseal :: "bytes \<Rightarrow> bytes \<Rightarrow> bytes \<Rightarrow> bytes option"
  md5_hex :: "jsstr \<Rightarrow> jsstr"

text \<open>
  \<open>sign_pk_of_seed\<close> is the Ed25519 public key of a 32-byte seed; a tweetnacl secret
  key is the seed followed by that public key. \<open>sign_detached msg sk\<close> is the 64-byte
  signature and \<open>sign_valid pk msg sig\<close> its check. \<open>convert_public\<close> and
  \<open>convert_secret\<close> are ed2curve's conversions (\<open>None\<close> for a point that does not
  convert), \<open>curve_public\<close> the X25519 public key of a secret. \<open>box_seal msg nonce pk
  sk\<close> and \<open>secretbox_seal msg nonce key\<close> encrypt, the \<open>unseal\<close> functions decrypt or
  fail. \<open>md5_hex\<close> is \<^verbatim>\<open>md5.md5\<close>: the digest as 32 lowercase hex digits.
\<close>

definition is_hex_digit :: "code_unit \<Rightarrow> bool" where
  "is_hex_digit c \<longleftrightarrow> (48 \<le> unat c \<and> unat c \<le> 57) \<or> (97 \<le> unat c \<and> unat c \<le> 102)"

definition ed_secret :: "nacl \<Rightarrow> bytes \<Rightarrow> bytes" where
  "ed_secret lib seed = seed @ sign_pk_of_seed lib seed"

definition nacl_laws :: "nacl \<Rightarrow> bool" where
  "nacl_laws lib \<longleftrightarrow>
     (\<forall>seed. length seed = 32 \<longrightarrow> length (sign_pk_of_seed lib seed) = 32) \<and>
     (\<forall>sk m. length sk = 64 \<longrightarrow> length (sign_detached lib m sk) = 64) \<and>
     (\<forall>seed m. length seed = 32 \<longrightarrow>
        sign_valid lib (sign_pk_of_seed lib seed) m (sign_detached lib m (ed_secret lib seed))) \<and>
     (\<forall>seed m pk. length seed = 32 \<longrightarrow>
        sign_valid lib pk m (sign_detached lib m (ed_secret lib seed)) \<longrightarrow>
        pk = sign_pk_of_seed lib seed) \<and>
     (\<forall>sk. length (convert_secret lib sk) = 32) \<and>
     (\<forall>x. length (curve_public lib x) = 32) \<and>
     (\<forall>seed. length seed = 32 \<longrightarrow>
        convert_public lib (sign_pk_of_seed lib seed) =
        Some (curve_public lib (convert_secret lib (ed_secret lib seed)))) \<and>
     (\<forall>a b m n. length a = 32 \<longrightarrow> length b = 32 \<longrightarrow> length n = 24 \<longrightarrow>
        box_unseal lib (box_seal lib m n (curve_public lib b) a) n (curve_public lib a) b = Some m) \<and>
     (\<forall>a b c m n. length a = 32 \<longrightarrow> length b = 32 \<longrightarrow> length n = 24 \<longrightarrow>
        box_unseal lib c n (curve_public lib a) b = Some m \<longrightarrow> c = box_seal lib m n (curve_public lib b) a) \<and>
     (\<forall>k m n. length k = 32 \<longrightarrow> length n = 24 \<longrightarrow>
        secretbox_unseal lib (secretbox_seal lib m n k) n k = Some m) \<and>
     (\<forall>c k m n. secretbox_unseal lib c n k = Some m \<longrightarrow> c = secretbox_seal lib m n k) \<and>
     (\<forall>k k' m m' n. length k = 32 \<longrightarrow> length k' = 32 \<longrightarrow>
        secretbox_seal lib m n k = secretbox_seal lib m' n k' \<longrightarrow> k = k') \<and>
     (\<forall>s. length (md5_hex lib s) = 32 \<and> list_all is_hex_digit (md5_hex lib s))"

section \<open>The entropy source\<close>

text \<open>
  \<^verbatim>\<open>nacl.randomBytes(n)\<close> reads the next \<open>n\<close> bytes of the platform's secure random
  source. The source is an infinite stream \<open>pool\<close> of which \<open>drawn\<close> bytes are used.
\<close>

record entropy =
  pool :: "nat \<Rightarrow> byte"
  drawn :: nat

definition randomBytes :: "nat \<Rightarrow> entropy \<Rightarrow> bytes \<times> entropy" where
  "randomBytes n g = (map (\<lambda>k. pool g (drawn g + k)) [0..<n], g\<lparr>drawn := drawn g + n\<rparr>)"

section \<open>The tweetnacl API\<close>

text \<open>Lengths fixed by NaCl.\<close>

abbreviation nonceLength :: nat where "nonceLength \<equiv> 24"

record keypair =
  publicKey :: bytes
  secretKey :: bytes

text \<open>\<^verbatim>\<open>nacl.sign.keyPair()\<close>: a fresh 32-byte seed from the entropy source.\<close>

definition sign_keyPair :: "nacl \<Rightarrow> entropy \<Rightarrow> keypair \<times> entropy" where
  "sign_keyPair lib g =
     (let (seed, g') = randomBytes 32 g
      in (\<lparr>publicKey = sign_pk_of_seed lib seed, secretKey = ed_secret lib seed\<rparr>, g'))"

text \<open>
  \<^verbatim>\<open>nacl.sign.keyPair.fromSecretKey(sk)\<close>: checks the length and copies the public key
  out of the last 32 bytes of the secret key; it does not recompute it.
\<close>

definition sign_keyPair_fromSecretKey :: "bytes \<Rightarrow> keypair js" where
  "sign_keyPair_fromSecretKey sk =
     (if length sk \<noteq> 64 then Inl BadSecretKeySize
      else Inr \<lparr>publicKey = drop 32 sk, secretKey = sk\<rparr>)"

text \<open>\<^verbatim>\<open>nacl.sign(msg, sk)\<close>: the signature followed by the message.\<close>

definition nacl_sign :: "nacl \<Rightarrow> bytes \<Rightarrow> bytes \<Rightarrow> bytes js" where
  "nacl_sign lib msg sk =
     (if length sk \<noteq> 64 then Inl BadSecretKeySize else Inr (sign_detached lib msg sk @ msg))"

text \<open>\<^verbatim>\<open>nacl.sign.open(sm, pk)\<close>: the message, or \<^verbatim>\<open>null\<close> if the signature fails.\<close>

definition nacl_sign_open :: "nacl \<Rightarrow> bytes \<Rightarrow> bytes \<Rightarrow> bytes option js" where
  "nacl_sign_open lib sm pk =
     (if length pk \<noteq> 32 then Inl BadPublicKeySize
      else if length sm < 64 then Inr None
      else if sign_valid lib pk (drop 64 sm) (take 64 sm) then Inr (Some (drop 64 sm))
      else Inr None)"

text \<open>
  \<^verbatim>\<open>nacl.box(msg, nonce, pk, sk)\<close> and \<^verbatim>\<open>nacl.box.open\<close>. ed2curve's
  \<^verbatim>\<open>convertPublicKey\<close> returns \<^verbatim>\<open>null\<close> for a key that does not convert, so the
  public key argument is a JavaScript value that may be \<^verbatim>\<open>null\<close>: tweetnacl's
  \<^verbatim>\<open>checkArrayTypes\<close> rejects it, then \<^verbatim>\<open>checkBoxLengths\<close> and \<^verbatim>\<open>checkLengths\<close>
  check the sizes in this order.
\<close>

definition box_checks :: "bytes \<Rightarrow> bytes option \<Rightarrow> bytes \<Rightarrow> bytes js" where
  "box_checks n pk sk =
     (case pk of
        None \<Rightarrow> Inl UnexpectedType
      | Some pk' \<Rightarrow>
          (if length pk' \<noteq> 32 then Inl BadPublicKeySize
           else if length sk \<noteq> 32 then Inl BadSecretKeySize
           else if length n \<noteq> nonceLength then Inl BadNonceSize
           else Inr pk'))"

definition nacl_box :: "nacl \<Rightarrow> bytes \<Rightarrow> bytes \<Rightarrow> bytes option \<Rightarrow> bytes \<Rightarrow> bytes js" where
  "nacl_box lib msg n pk sk = mapE (\<lambda>pk'. box_seal lib msg n pk' sk) (box_checks n pk sk)"

definition nacl_box_open :: "nacl \<Rightarrow> bytes \<Rightarrow> bytes \<Rightarrow> bytes option \<Rightarrow> bytes \<Rightarrow> bytes option js" where
  "nacl_box_open lib box n pk sk =
     mapE (\<lambda>pk'. box_unseal lib box n pk' sk) (box_checks n pk sk)"

text \<open>\<^verbatim>\<open>nacl.secretbox(msg, n, key)\<close> and \<^verbatim>\<open>nacl.secretbox.open\<close>.\<close>

definition secretbox_checks :: "bytes \<Rightarrow> bytes \<Rightarrow> unit js" where
  "secretbox_checks n key =
     (if length key \<noteq> 32 then Inl BadKeySize
      else if length n \<noteq> nonceLength then Inl BadNonceSize
      else Inr ())"

definition nacl_secretbox :: "nacl \<Rightarrow> bytes \<Rightarrow> bytes \<Rightarrow> bytes \<Rightarrow> bytes js" where
  "nacl_secretbox lib msg n key =
     mapE (\<lambda>_. secretbox_seal lib msg n key) (secretbox_checks n key)"

definition nacl_secretbox_open :: "nacl \<Rightarrow> bytes \<Rightarrow> bytes \<Rightarrow> bytes \<Rightarrow> bytes option js" where
  "nacl_secretbox_open lib box n key =
     mapE (\<lambda>_. secretbox_unseal lib box n key) (secretbox_checks n key)"

section \<open>The contract, law by law\<close>

named_theorems nacl_law "the clauses of nacl_laws, each under the hypothesis nacl_laws lib"

lemma sign_pk_length [nacl_law]:
  "nacl_laws lib \<Longrightarrow> length seed = 32 \<Longrightarrow> length (sign_pk_of_seed lib seed) = 32"
  by (simp add: nacl_laws_def)

lemma sign_detached_length [nacl_law]:
  "nacl_laws lib \<Longrightarrow> length sk = 64 \<Longrightarrow> length (sign_detached lib m sk) = 64"
  by (simp add: nacl_laws_def)

lemma sign_correct [nacl_law]:
  "nacl_laws lib \<Longrightarrow> length seed = 32 \<Longrightarrow>
   sign_valid lib (sign_pk_of_seed lib seed) m (sign_detached lib m (ed_secret lib seed))"
  by (simp add: nacl_laws_def)

lemma sign_binding:
  "nacl_laws lib \<Longrightarrow> length seed = 32 \<Longrightarrow>
   sign_valid lib pk m (sign_detached lib m (ed_secret lib seed)) \<Longrightarrow> pk = sign_pk_of_seed lib seed"
  by (simp add: nacl_laws_def)

lemma convert_secret_length [nacl_law]: "nacl_laws lib \<Longrightarrow> length (convert_secret lib sk) = 32"
  by (simp add: nacl_laws_def)

lemma curve_public_length [nacl_law]: "nacl_laws lib \<Longrightarrow> length (curve_public lib x) = 32"
  by (simp add: nacl_laws_def)

lemma convert_public_seed [nacl_law]:
  "nacl_laws lib \<Longrightarrow> length seed = 32 \<Longrightarrow>
   convert_public lib (sign_pk_of_seed lib seed) = Some (curve_public lib (convert_secret lib (ed_secret lib seed)))"
  by (simp add: nacl_laws_def)

lemma box_correct [nacl_law]:
  "nacl_laws lib \<Longrightarrow> length a = 32 \<Longrightarrow> length b = 32 \<Longrightarrow> length n = 24 \<Longrightarrow>
   box_unseal lib (box_seal lib m n (curve_public lib b) a) n (curve_public lib a) b = Some m"
  by (simp add: nacl_laws_def)

lemma box_integrity:
  "nacl_laws lib \<Longrightarrow> length a = 32 \<Longrightarrow> length b = 32 \<Longrightarrow> length n = 24 \<Longrightarrow>
   box_unseal lib c n (curve_public lib a) b = Some m \<Longrightarrow> c = box_seal lib m n (curve_public lib b) a"
  by (simp add: nacl_laws_def)

lemma secretbox_correct [nacl_law]:
  "nacl_laws lib \<Longrightarrow> length k = 32 \<Longrightarrow> length n = 24 \<Longrightarrow>
   secretbox_unseal lib (secretbox_seal lib m n k) n k = Some m"
  by (simp add: nacl_laws_def)

lemma secretbox_integrity:
  "nacl_laws lib \<Longrightarrow> secretbox_unseal lib c n k = Some m \<Longrightarrow> c = secretbox_seal lib m n k"
  by (simp add: nacl_laws_def)

lemma secretbox_key_binding:
  assumes "nacl_laws lib" "length k = 32" "length k' = 32"
    and "secretbox_seal lib m n k = secretbox_seal lib m' n k'"
  shows "k = k'"
proof -
  from assms(1) have "\<forall>k k' m m' n. length k = 32 \<longrightarrow> length k' = 32 \<longrightarrow>
      secretbox_seal lib m n k = secretbox_seal lib m' n k' \<longrightarrow> k = k'"
    unfolding nacl_laws_def by (elim conjE) assumption
  with assms(2-4) show ?thesis by blast
qed

lemma md5_hex_length [nacl_law]: "nacl_laws lib \<Longrightarrow> length (md5_hex lib s) = 32"
  by (simp add: nacl_laws_def)

lemma md5_hex_digits: "nacl_laws lib \<Longrightarrow> list_all is_hex_digit (md5_hex lib s)"
  by (simp add: nacl_laws_def)

lemma ed_secret_length [nacl_law]:
  "nacl_laws lib \<Longrightarrow> length seed = 32 \<Longrightarrow> length (ed_secret lib seed) = 64"
  by (simp add: ed_secret_def sign_pk_length)

lemma ed_secret_public [simp]: "length seed = 32 \<Longrightarrow> drop 32 (ed_secret lib seed) = sign_pk_of_seed lib seed"
  by (simp add: ed_secret_def)

lemma randomBytes_length [simp]: "length (fst (randomBytes n g)) = n"
  by (simp add: randomBytes_def)

section \<open>A library that keeps the contract\<close>

text \<open>
  A deliberately insecure stand-in: keys and nonces are visible in the ciphertexts.
  It exists to show that \<open>nacl_laws\<close> is satisfiable and to run the model on
  concrete inputs.
\<close>

definition toy_hex :: "nat \<Rightarrow> code_unit" where
  "toy_hex d = word_of_nat (if d < 10 then 48 + d else 87 + d)"

definition pad32 :: "bytes \<Rightarrow> bytes" where
  "pad32 x = take 32 (x @ replicate 32 0)"

definition toy_nacl :: nacl where
  "toy_nacl =
     \<lparr>sign_pk_of_seed = rev,
      sign_detached = (\<lambda>m sk. drop 32 sk @ drop 32 sk),
      sign_valid = (\<lambda>pk m sig. sig = pk @ pk),
      convert_public = (\<lambda>pk. if length pk = 32 then Some (rev pk) else None),
      convert_secret = pad32,
      curve_public = pad32,
      box_seal = (\<lambda>m n pk sk. map2 (+) pk sk @ n @ m),
      box_unseal = (\<lambda>c n pk sk.
        if take 32 c = map2 (+) pk sk \<and> take 24 (drop 32 c) = n then Some (drop 56 c) else None),
      secretbox_seal = (\<lambda>m n k. k @ n @ m),
      secretbox_unseal = (\<lambda>c n k.
        if take (length k) c = k \<and> take (length n) (drop (length k) c) = n
        then Some (drop (length k + length n) c) else None),
      md5_hex = (\<lambda>s. map (\<lambda>i. toy_hex ((i + (case s of [] \<Rightarrow> 0 | c # _ \<Rightarrow> unat c)) mod 16)) [0..<32])\<rparr>"

text \<open>An entropy source for examples: byte \<open>k\<close> of the stream is \<open>k mod 256\<close>.\<close>

definition g0 :: entropy where
  "g0 = \<lparr>pool = (\<lambda>k. word_of_nat k), drawn = 0\<rparr>"

lemma pad32_id: "length x = 32 \<Longrightarrow> pad32 x = x"
  by (simp add: pad32_def)

lemma length_pad32 [simp]: "length (pad32 x) = 32"
  by (simp add: pad32_def)

lemma toy_hex_digit: "d < 16 \<Longrightarrow> is_hex_digit (toy_hex d)"
  by (simp add: toy_hex_def is_hex_digit_def unat_of_nat)

lemma double_eq: "xs @ xs = ys @ ys \<Longrightarrow> xs = ys"
  by (metis append_eq_append_conv length_append mult_2 mult_cancel_left zero_neq_numeral)

lemma map2_add_comm: "map2 (+) b a = map2 (+) a (b::bytes)"
  by (induction a arbitrary: b) (auto simp: zip_Cons1 ac_simps split: list.splits)

lemma take_drop_split:
  "take (length k) c = k \<Longrightarrow> take (length n) (drop (length k) c) = n \<Longrightarrow>
   c = k @ n @ drop (length k + length n) c"
  by (metis append_take_drop_id drop_drop add.commute)

lemma toy_nacl_laws: "nacl_laws toy_nacl"
  unfolding nacl_laws_def
proof (intro conjI allI impI)
  fix seed m pk :: bytes
  assume l: "length seed = 32"
  show "length (sign_pk_of_seed toy_nacl seed) = 32" using l by (simp add: toy_nacl_def)
  show "sign_valid toy_nacl (sign_pk_of_seed toy_nacl seed) m (sign_detached toy_nacl m (ed_secret toy_nacl seed))"
    using l by (simp add: toy_nacl_def ed_secret_def)
  show "convert_public toy_nacl (sign_pk_of_seed toy_nacl seed) =
        Some (curve_public toy_nacl (convert_secret toy_nacl (ed_secret toy_nacl seed)))"
    using l by (simp add: toy_nacl_def ed_secret_def pad32_def)
  assume "sign_valid toy_nacl pk m (sign_detached toy_nacl m (ed_secret toy_nacl seed))"
  with l have "rev seed @ rev seed = pk @ pk" by (simp add: toy_nacl_def ed_secret_def)
  then have "rev seed = pk" by (rule double_eq)
  then show "pk = sign_pk_of_seed toy_nacl seed" by (simp add: toy_nacl_def)
next
  fix sk m :: bytes
  assume "length sk = 64"
  then show "length (sign_detached toy_nacl m sk) = 64" by (simp add: toy_nacl_def)
next
  fix sk :: bytes
  show "length (convert_secret toy_nacl sk) = 32" by (simp add: toy_nacl_def)
  show "length (curve_public toy_nacl sk) = 32" by (simp add: toy_nacl_def)
next
  fix a b m n :: bytes
  assume "length a = 32" "length b = 32" "length n = 24"
  then show "box_unseal toy_nacl (box_seal toy_nacl m n (curve_public toy_nacl b) a) n (curve_public toy_nacl a) b = Some m"
    by (simp add: toy_nacl_def pad32_id map2_add_comm)
next
  fix a b c m n :: bytes
  assume l: "length a = 32" "length b = 32" "length n = 24"
    and "box_unseal toy_nacl c n (curve_public toy_nacl a) b = Some m"
  then have "take 32 c = map2 (+) b a" "take 24 (drop 32 c) = n" "m = drop 56 c"
    by (auto simp: toy_nacl_def pad32_id map2_add_comm split: if_splits)
  then have "c = map2 (+) b a @ n @ drop (length (map2 (+) b a) + length n) c"
    using l by (intro take_drop_split) simp_all
  with l \<open>m = drop 56 c\<close> show "c = box_seal toy_nacl m n (curve_public toy_nacl b) a"
    by (simp add: toy_nacl_def pad32_id)
next
  fix k m n :: bytes
  assume "length k = 32" "length n = 24"
  then show "secretbox_unseal toy_nacl (secretbox_seal toy_nacl m n k) n k = Some m"
    by (simp add: toy_nacl_def)
next
  fix c k m n :: bytes
  assume "secretbox_unseal toy_nacl c n k = Some m"
  then show "c = secretbox_seal toy_nacl m n k"
    by (auto simp: toy_nacl_def split: if_splits dest: take_drop_split)
next
  fix k k' m m' n :: bytes
  assume "length k = 32" "length k' = 32" "secretbox_seal toy_nacl m n k = secretbox_seal toy_nacl m' n k'"
  then show "k = k'" by (simp add: toy_nacl_def append_eq_append_conv)
next
  fix s :: jsstr
  show "length (md5_hex toy_nacl s) = 32" by (simp add: toy_nacl_def)
  show "list_all is_hex_digit (md5_hex toy_nacl s)"
    by (simp add: toy_nacl_def list_all_iff toy_hex_digit)
qed

end
