(* ===== verification/SymCrypto.thy ===== *)
theory SymCrypto
  imports Utf8 Base64 Legacy16 Nacl
begin

text \<open>
  Pre-shared-key encryption: \<^verbatim>\<open>encryptPSK(msg, key)\<close> and
  \<^verbatim>\<open>decryptPSK(msg, key, nonce)\<close> (src/saltshaker.js, lines 148--165). The key of the
  secret box is \<^verbatim>\<open>_encoder(_md5(key))\<close>: the 32 hex digits of the passphrase's MD5,
  one byte each. A nonce is drawn from the entropy source before anything else runs.
\<close>

definition md5 :: "nacl \<Rightarrow> jsstr \<Rightarrow> jsstr" where
  "md5 lib = md5_hex lib"

definition psk_key :: "nacl \<Rightarrow> jsstr \<Rightarrow> bytes" where
  "psk_key lib key = encoder (md5 lib key)"

definition encryptPSK :: "nacl \<Rightarrow> jsstr \<Rightarrow> jsstr \<Rightarrow> entropy \<Rightarrow> envelope js \<times> entropy" where
  "encryptPSK lib msg key g =
     (let (n, g') = randomBytes nonceLength g
      in (bindE (decodeUTF8 msg) (\<lambda>m.
            mapE (\<lambda>c. \<lparr>message = encodeBase64 c, nonce = encodeBase64 n\<rparr>)
              (nacl_secretbox lib m n (psk_key lib key))), g'))"

definition decryptPSK :: "nacl \<Rightarrow> jsstr \<Rightarrow> jsstr \<Rightarrow> jsstr \<Rightarrow> jsstr js" where
  "decryptPSK lib msg key nonce64 =
     bindE (decodeBase64 msg) (\<lambda>c. bindE (decodeBase64 nonce64) (\<lambda>n.
       bindE (nacl_secretbox_open lib c n (psk_key lib key)) decoder))"

section \<open>Lemmas\<close>

lemma psk_key_len [nacl_law]: "nacl_laws lib \<Longrightarrow> length (psk_key lib key) = 32"
  by (simp add: psk_key_def md5_def md5_hex_length)

lemma encryptPSK_Inr:
  assumes "nacl_laws lib" "decodeUTF8 msg = Inr m"
  shows "encryptPSK lib msg key g =
    (Inr \<lparr>message = encodeBase64 (secretbox_seal lib m (fst (randomBytes nonceLength g)) (psk_key lib key)),
          nonce = encodeBase64 (fst (randomBytes nonceLength g))\<rparr>,
     snd (randomBytes nonceLength g))"
  using assms
  by (simp add: encryptPSK_def nacl_secretbox_def secretbox_checks_def psk_key_len randomBytes_def)

lemma decryptPSK_InrE:
  assumes "decryptPSK lib msg key nonce64 = Inr s"
  obtains c n m where "decodeBase64 msg = Inr c" "decodeBase64 nonce64 = Inr n"
    "secretbox_checks n (psk_key lib key) = Inr ()"
    "secretbox_unseal lib c n (psk_key lib key) = Some m" "s = decode_ref m"
proof -
  from assms obtain c n r where c: "decodeBase64 msg = Inr c" and n: "decodeBase64 nonce64 = Inr n"
    and r: "nacl_secretbox_open lib c n (psk_key lib key) = Inr r" and d: "decoder r = Inr s"
    by (auto simp: decryptPSK_def bindE_eq_Inr_iff)
  from r have chk: "secretbox_checks n (psk_key lib key) = Inr ()"
    and r': "r = secretbox_unseal lib c n (psk_key lib key)"
    by (auto simp: nacl_secretbox_open_def mapE_def bindE_eq_Inr_iff)
  from d r' obtain m where "secretbox_unseal lib c n (psk_key lib key) = Some m" "s = decode_ref m"
    by (auto simp: decoder_def decoder_loop_ref split: option.splits)
  with c n chk show ?thesis by (rule that)
qed

lemma decryptPSK_sealed:
  assumes "nacl_laws lib" "length n = nonceLength"
  shows "decryptPSK lib (encodeBase64 (secretbox_seal lib m n (psk_key lib key))) key' (encodeBase64 n) =
    (if psk_key lib key' = psk_key lib key then decoder (Some m) else Inl NullProperty)"
proof -
  have k: "length (psk_key lib key) = 32" "length (psk_key lib key') = 32"
    using assms(1) by (simp_all add: psk_key_len)
  have "secretbox_unseal lib (secretbox_seal lib m n (psk_key lib key)) n (psk_key lib key') =
    (if psk_key lib key' = psk_key lib key then Some m else None)"
  proof (cases "psk_key lib key' = psk_key lib key")
    case True
    with assms k show ?thesis by (simp add: secretbox_correct)
  next
    case False
    have "secretbox_unseal lib (secretbox_seal lib m n (psk_key lib key)) n (psk_key lib key') = None"
    proof (rule ccontr)
      assume "secretbox_unseal lib (secretbox_seal lib m n (psk_key lib key)) n (psk_key lib key') \<noteq> None"
      then obtain m' where "secretbox_unseal lib (secretbox_seal lib m n (psk_key lib key)) n (psk_key lib key') = Some m'"
        by blast
      with assms(1) have "secretbox_seal lib m n (psk_key lib key) = secretbox_seal lib m' n (psk_key lib key')"
        by (rule secretbox_integrity)
      with assms(1) k have "psk_key lib key = psk_key lib key'" by (rule secretbox_key_binding)
      with False show False by simp
    qed
    with False show ?thesis by simp
  qed
  with assms k show ?thesis
    by (simp add: decryptPSK_def decodeBase64_def b64_decode_encode nacl_secretbox_open_def
        secretbox_checks_def decoder_def)
qed

lemma psk_key_inj:
  assumes "nacl_laws lib" "psk_key lib k1 = psk_key lib k2"
  shows "md5 lib k1 = md5 lib k2"
proof -
  have ascii: "list_all (\<lambda>u. unat u < 256) (md5 lib k)" for k
    using md5_hex_digits [OF assms(1), of k]
    by (auto simp: md5_def list_all_iff is_hex_digit_def)
  from assms(2) show ?thesis
    unfolding psk_key_def by (rule encoder_inj_ascii [OF ascii ascii])
qed


section \<open>Properties of PSK encryption\<close>

text \<open>
  C1: PSK round trip. For every library that keeps the NaCl contract and every
  message without surrogate code units, \<^verbatim>\<open>encryptPSK\<close> returns an envelope, and
  \<^verbatim>\<open>decryptPSK\<close> of its two fields with the same passphrase returns the message.
\<close>

theorem decryptPSK_encryptPSK:
  assumes "nacl_laws lib" and "list_all (\<lambda>u. \<not> is_surrogate u) msg"
  shows "\<exists>env. fst (encryptPSK lib msg key g) = Inr env \<and>
           decryptPSK lib (message env) key (nonce env) = Inr msg"
proof -
  from decodeUTF8_decoder_id [OF assms(2)] obtain bs
    where e: "decodeUTF8 msg = Inr bs" and d: "decoder (Some bs) = Inr msg" by blast
  show ?thesis
    using encryptPSK_Inr [OF assms(1) e] decryptPSK_sealed [OF assms(1)] d by simp
qed

theorem decryptPSK_encryptPSK_witness:
  "nacl_laws toy_nacl \<and> list_all (\<lambda>u. \<not> is_surrogate u) (js_lit ''attack at dawn'') \<and>
   (\<exists>env. fst (encryptPSK toy_nacl (js_lit ''attack at dawn'') (js_lit ''correct horse'') g0) = Inr env \<and>
      decryptPSK toy_nacl (message env) (js_lit ''correct horse'') (nonce env) = Inr (js_lit ''attack at dawn''))"
proof -
  have s: "list_all (\<lambda>u. \<not> is_surrogate u) (js_lit ''attack at dawn'')"
    by (simp add: js_lit_def is_surrogate_def)
  show ?thesis using toy_nacl_laws s decryptPSK_encryptPSK [OF toy_nacl_laws s] by blast
qed

text \<open>
  C9: A wrong passphrase does not decrypt: if the MD5 digests of the two passphrases
  differ, decrypting an envelope of \<^verbatim>\<open>encryptPSK\<close> fails. It fails with the
  \<^verbatim>\<open>TypeError\<close> that \<^verbatim>\<open>_decoder(null)\<close> throws on reading \<^verbatim>\<open>null.length\<close>, not with a
  dedicated authentication error.
\<close>

theorem decryptPSK_wrong_passphrase:
  assumes "nacl_laws lib" "md5 lib key \<noteq> md5 lib key'" "fst (encryptPSK lib msg key g) = Inr env"
  shows "decryptPSK lib (message env) key' (nonce env) = Inl NullProperty"
proof -
  from assms(3) obtain m where e: "decodeUTF8 msg = Inr m"
    by (cases "decodeUTF8 msg") (auto simp: encryptPSK_def Let_def split: prod.splits)
  have "psk_key lib key' \<noteq> psk_key lib key" using psk_key_inj [OF assms(1)] assms(2) by metis
  with assms(3) show ?thesis
    using encryptPSK_Inr [OF assms(1) e] decryptPSK_sealed [OF assms(1)] by auto
qed

theorem decryptPSK_wrong_passphrase_witness:
  "md5 toy_nacl (js_lit ''correct horse'') \<noteq> md5 toy_nacl (js_lit ''wrong horse'') \<and>
   decryptPSK toy_nacl
     (encodeBase64 (secretbox_seal toy_nacl (js_bytes ''attack at dawn'') (fst (randomBytes nonceLength g0))
        (psk_key toy_nacl (js_lit ''correct horse''))))
     (js_lit ''wrong horse'') (encodeBase64 (fst (randomBytes nonceLength g0))) = Inl NullProperty"
proof -
  have "hd (md5 toy_nacl (js_lit ''correct horse'')) \<noteq> hd (md5 toy_nacl (js_lit ''wrong horse''))"
    by (simp add: md5_def toy_nacl_def js_lit_def toy_hex_def upt_rec)
  then have d: "md5 toy_nacl (js_lit ''correct horse'') \<noteq> md5 toy_nacl (js_lit ''wrong horse'')"
    by metis
  have e: "decodeUTF8 (js_lit ''attack at dawn'') = Inr (js_bytes ''attack at dawn'')"
    by (simp add: js_lit_def js_bytes_def is_low_surrogate_def is_high_surrogate_def utf8_bytes_def)
  have enc: "fst (encryptPSK toy_nacl (js_lit ''attack at dawn'') (js_lit ''correct horse'') g0) =
    Inr \<lparr>message = encodeBase64 (secretbox_seal toy_nacl (js_bytes ''attack at dawn'')
           (fst (randomBytes nonceLength g0)) (psk_key toy_nacl (js_lit ''correct horse''))),
         nonce = encodeBase64 (fst (randomBytes nonceLength g0))\<rparr>"
    using encryptPSK_Inr [OF toy_nacl_laws e] by simp
  show ?thesis using decryptPSK_wrong_passphrase [OF toy_nacl_laws d enc] d by simp
qed

text \<open>
  \<^verbatim>\<open>encryptPSK\<close> draws exactly one 24-byte nonce from the entropy source, first,
  so even a call that then throws has used it; the envelope's nonce field is the
  base64 of exactly those bytes.
\<close>

theorem encryptPSK_entropy:
  "snd (encryptPSK lib msg key g) = g\<lparr>drawn := drawn g + 24\<rparr> \<and>
   (case fst (encryptPSK lib msg key g) of
      Inl e \<Rightarrow> True
    | Inr env \<Rightarrow> decodeBase64 (nonce env) = Inr (map (\<lambda>k. pool g (drawn g + k)) [0..<24]))"
  by (cases "decodeUTF8 msg")
     (auto simp: encryptPSK_def randomBytes_def nacl_secretbox_def mapE_def bindE_def
        decodeBase64_def b64_decode_encode split: sum.splits)

text \<open>
  Nonce freshness, reduced to the entropy source: two successive calls of
  \<^verbatim>\<open>encryptPSK\<close> return different nonces whenever the two consecutive 24-byte
  windows of the entropy stream differ.
\<close>

theorem encryptPSK_fresh_nonces:
  assumes "map (\<lambda>k. pool g (drawn g + k)) [0..<24] \<noteq> map (\<lambda>k. pool g (drawn g + 24 + k)) [0..<24]"
    and "fst (encryptPSK lib m1 k1 g) = Inr e1"
    and "fst (encryptPSK lib m2 k2 (snd (encryptPSK lib m1 k1 g))) = Inr e2"
  shows "nonce e1 \<noteq> nonce e2"
proof
  have n1: "nonce e1 = encodeBase64 (map (\<lambda>k. pool g (drawn g + k)) [0..<24])"
    using assms(2) by (auto simp: encryptPSK_def randomBytes_def mapE_def bindE_def split: sum.splits)
  have n2: "nonce e2 = encodeBase64 (map (\<lambda>k. pool g (drawn g + 24 + k)) [0..<24])"
    using assms(3) by (auto simp: encryptPSK_def randomBytes_def mapE_def bindE_def split: sum.splits)
  assume "nonce e1 = nonce e2"
  with n1 n2 have "b64_decode (encodeBase64 (map (\<lambda>k. pool g (drawn g + k)) [0..<24])) =
      b64_decode (encodeBase64 (map (\<lambda>k. pool g (drawn g + 24 + k)) [0..<24]))" by simp
  with assms(1) show False by (simp only: b64_decode_encode option.inject)
qed

theorem encryptPSK_fresh_nonces_witness:
  "map (\<lambda>k. pool g0 (drawn g0 + k)) [0..<24] \<noteq> map (\<lambda>k. pool g0 (drawn g0 + 24 + k)) [0..<24] \<and>
   nonce (\<lparr>message = encodeBase64 (secretbox_seal toy_nacl [] (fst (randomBytes nonceLength g0)) (psk_key toy_nacl [])),
           nonce = encodeBase64 (fst (randomBytes nonceLength g0))\<rparr>) \<noteq>
   nonce (\<lparr>message = encodeBase64 (secretbox_seal toy_nacl [] (fst (randomBytes nonceLength (snd (randomBytes nonceLength g0)))) (psk_key toy_nacl [])),
           nonce = encodeBase64 (fst (randomBytes nonceLength (snd (randomBytes nonceLength g0))))\<rparr>)"
proof -
  have w: "map (\<lambda>k. pool g0 (drawn g0 + k)) [0..<24] \<noteq> map (\<lambda>k. pool g0 (drawn g0 + 24 + k)) [0..<24]"
    by (simp add: g0_def upt_rec)
  have e: "decodeUTF8 [] = Inr []" by simp
  have e1: "fst (encryptPSK toy_nacl [] [] g0) =
    Inr \<lparr>message = encodeBase64 (secretbox_seal toy_nacl [] (fst (randomBytes nonceLength g0)) (psk_key toy_nacl [])),
         nonce = encodeBase64 (fst (randomBytes nonceLength g0))\<rparr>"
    using encryptPSK_Inr [OF toy_nacl_laws e] by simp
  have e2: "fst (encryptPSK toy_nacl [] [] (snd (encryptPSK toy_nacl [] [] g0))) =
    Inr \<lparr>message = encodeBase64 (secretbox_seal toy_nacl [] (fst (randomBytes nonceLength (snd (randomBytes nonceLength g0)))) (psk_key toy_nacl [])),
         nonce = encodeBase64 (fst (randomBytes nonceLength (snd (randomBytes nonceLength g0))))\<rparr>"
    using encryptPSK_Inr [OF toy_nacl_laws e] by simp
  show ?thesis using w encryptPSK_fresh_nonces [OF w e1 e2] by blast
qed

text \<open>
  C15: Integrity of PSK envelopes: whatever two strings \<^verbatim>\<open>decryptPSK\<close> accepts, the
  ciphertext they decode to is the secret box of the returned bytes under that nonce
  and the passphrase's key. A ciphertext that was not produced that way is rejected.
\<close>

theorem decryptPSK_integrity:
  assumes "nacl_laws lib" "decryptPSK lib msg key nonce64 = Inr s"
  shows "\<exists>c n m. decodeBase64 msg = Inr c \<and> decodeBase64 nonce64 = Inr n \<and>
           c = secretbox_seal lib m n (psk_key lib key) \<and> s = decode_ref m"
proof -
  from assms(2) obtain c n m where "decodeBase64 msg = Inr c" "decodeBase64 nonce64 = Inr n"
    and u: "secretbox_unseal lib c n (psk_key lib key) = Some m" and "s = decode_ref m"
    by (rule decryptPSK_InrE)
  moreover from assms(1) u have "c = secretbox_seal lib m n (psk_key lib key)"
    by (rule secretbox_integrity)
  ultimately show ?thesis by blast
qed

theorem decryptPSK_integrity_witness:
  "nacl_laws toy_nacl \<and>
   decryptPSK toy_nacl (encodeBase64 (secretbox_seal toy_nacl [0x68, 0x69] (replicate 24 0) (psk_key toy_nacl [])))
     [] (encodeBase64 (replicate 24 0)) = Inr [0x68, 0x69] \<and>
   (\<exists>c n m. decodeBase64 (encodeBase64 (secretbox_seal toy_nacl [0x68, 0x69] (replicate 24 0) (psk_key toy_nacl []))) = Inr c \<and>
      decodeBase64 (encodeBase64 (replicate 24 0)) = Inr n \<and>
      c = secretbox_seal toy_nacl m n (psk_key toy_nacl []) \<and> [0x68, 0x69] = decode_ref m)"
proof -
  have d: "decryptPSK toy_nacl (encodeBase64 (secretbox_seal toy_nacl [0x68, 0x69] (replicate 24 0) (psk_key toy_nacl [])))
     [] (encodeBase64 (replicate 24 0)) = Inr [0x68, 0x69]"
    using decryptPSK_sealed [OF toy_nacl_laws, of "replicate 24 0" "[0x68, 0x69]" "[]" "[]"]
    by (simp add: decoder_def decoder_loop_ref byte_class_def)
  show ?thesis using toy_nacl_laws d decryptPSK_integrity [OF toy_nacl_laws d] by blast
qed



text \<open>
  A message field whose length is not a multiple of four is rejected before
  anything is decrypted: \<^verbatim>\<open>decryptPSK\<close> throws \<^verbatim>\<open>TypeError('invalid encoding')\<close>.
\<close>

theorem decryptPSK_bad_length:
  "length msg mod 4 \<noteq> 0 \<Longrightarrow> decryptPSK lib msg key nonce64 = Inl InvalidEncoding"
  by (simp add: decryptPSK_def decodeBase64_bad_length)

theorem decryptPSK_bad_length_witness:
  "length (js_lit ''abc'') mod 4 \<noteq> 0 \<and>
   decryptPSK toy_nacl (js_lit ''abc'') [] [] = Inl InvalidEncoding"
proof -
  have l: "length (js_lit ''abc'') mod 4 \<noteq> 0" by (simp add: js_lit_def)
  show ?thesis using l decryptPSK_bad_length [OF l] by simp
qed


end
