(* ===== verification/KeyManager.thy ===== *)
theory KeyManager
  imports Base64 Nacl
begin

text \<open>
  \<^verbatim>\<open>SaltShaker.create(privatekey)\<close> (src/saltshaker.js, lines 97--111). The argument
  is optional: \<open>None\<close> is \<^verbatim>\<open>undefined\<close>. The test \<^verbatim>\<open>if(privatekey)\<close> is JavaScript
  truthiness, under which the empty string is false. With a key the pair is rebuilt
  by \<^verbatim>\<open>nacl.sign.keyPair.fromSecretKey\<close> and no entropy is used; without one a fresh
  pair is generated from 32 bytes of entropy. Both keys are returned as base64.
\<close>

record keys =
  publickey :: jsstr
  privatekey :: jsstr

definition js_truthy :: "jsstr option \<Rightarrow> bool" where
  "js_truthy v = (case v of None \<Rightarrow> False | Some s \<Rightarrow> s \<noteq> [])"

definition keys_b64 :: "keypair \<Rightarrow> keys" where
  "keys_b64 kp = \<lparr>publickey = encodeBase64 (publicKey kp), privatekey = encodeBase64 (secretKey kp)\<rparr>"

definition create :: "nacl \<Rightarrow> jsstr option \<Rightarrow> entropy \<Rightarrow> keys js \<times> entropy" where
  "create lib privatekey_arg g =
     (if js_truthy privatekey_arg
      then (bindE (decodeBase64 (the privatekey_arg)) (\<lambda>sk.
              mapE keys_b64 (sign_keyPair_fromSecretKey sk)), g)
      else (let (kp, g') = sign_keyPair lib g in (Inr (keys_b64 kp), g')))"

section \<open>Lemmas\<close>

lemma create_None:
  "create lib None g =
     (Inr (keys_b64 (fst (sign_keyPair lib g))), snd (sign_keyPair lib g))"
  by (simp add: create_def js_truthy_def split: prod.splits)

lemma create_Some:
  "k \<noteq> [] \<Longrightarrow> create lib (Some k) g =
     (bindE (decodeBase64 k) (\<lambda>sk. mapE keys_b64 (sign_keyPair_fromSecretKey sk)), g)"
  by (simp add: create_def js_truthy_def)

lemma sign_keyPair_seed:
  "\<exists>seed. length seed = 32 \<and> fst (sign_keyPair lib g) =
     \<lparr>publicKey = sign_pk_of_seed lib seed, secretKey = ed_secret lib seed\<rparr>"
proof -
  let ?seed = "map (\<lambda>k. pool g (drawn g + k)) [0..<32]"
  have "length ?seed = 32 \<and> fst (sign_keyPair lib g) =
     \<lparr>publicKey = sign_pk_of_seed lib ?seed, secretKey = ed_secret lib ?seed\<rparr>"
    by (simp add: sign_keyPair_def randomBytes_def)
  then show ?thesis by blast
qed

lemma generated_keys:
  "fst (create lib None g) = Inr ks \<Longrightarrow>
   \<exists>seed. length seed = 32 \<and> publickey ks = encodeBase64 (sign_pk_of_seed lib seed) \<and>
     privatekey ks = encodeBase64 (ed_secret lib seed)"
  using sign_keyPair_seed [of lib g] by (auto simp: create_None keys_b64_def)

section \<open>Properties of create\<close>



text \<open>
  C4: Key round trip: for a library that keeps the contract, generating a key pair
  never fails, and restoring from the generated private key gives back the same pair.
\<close>

theorem create_roundtrip:
  "nacl_laws lib \<Longrightarrow>
   (case fst (create lib None g) of
      Inl e \<Rightarrow> False
    | Inr ks \<Rightarrow> fst (create lib (Some (privatekey ks)) g') = Inr ks)"
proof -
  assume l: "nacl_laws lib"
  obtain seed where s: "length seed = 32" and kp: "fst (sign_keyPair lib g) =
      \<lparr>publicKey = sign_pk_of_seed lib seed, secretKey = ed_secret lib seed\<rparr>"
    using sign_keyPair_seed by blast
  have "encodeBase64 (ed_secret lib seed) \<noteq> []"
    using l s by (simp add: length_encodeBase64 ed_secret_length flip: length_greater_0_conv)
  with l s kp show ?thesis
    by (simp add: create_None create_Some keys_b64_def decodeBase64_encodeBase64
        sign_keyPair_fromSecretKey_def ed_secret_length)
qed

theorem create_roundtrip_witness:
  "nacl_laws toy_nacl \<and>
   (case fst (create toy_nacl None g0) of
      Inl e \<Rightarrow> False
    | Inr ks \<Rightarrow> fst (create toy_nacl (Some (privatekey ks)) g0) = Inr ks)"
  using toy_nacl_laws create_roundtrip [OF toy_nacl_laws] by simp

text \<open>
  C27: The empty string counts as no key: \<^verbatim>\<open>create("")\<close> does not reject the
  argument but generates a fresh random key pair, as \<^verbatim>\<open>create()\<close> does.
\<close>

theorem create_empty_string: "create lib (Some []) g = create lib None g"
  by (simp add: create_def js_truthy_def)

text \<open>
  C30: A private key that does not decode to 64 bytes is rejected with tweetnacl's
  \<^verbatim>\<open>Error('bad secret key size')\<close>.
\<close>

theorem create_bad_key_length:
  "k \<noteq> [] \<Longrightarrow> decodeBase64 k = Inr sk \<Longrightarrow> length sk \<noteq> 64 \<Longrightarrow>
   fst (create lib (Some k) g) = Inl BadSecretKeySize"
  by (simp add: create_Some sign_keyPair_fromSecretKey_def)

theorem create_bad_key_length_witness:
  "js_lit ''AA=='' \<noteq> [] \<and> decodeBase64 (js_lit ''AA=='') = Inr [0] \<and> length [0::byte] \<noteq> 64 \<and>
   fst (create toy_nacl (Some (js_lit ''AA=='')) g0) = Inl BadSecretKeySize"
proof -
  have k: "js_lit ''AA=='' \<noteq> []" by (simp add: js_lit_def)
  have d: "decodeBase64 (js_lit ''AA=='') = Inr [0]"
    by (simp add: js_lit_def decodeBase64_def b64_last_def b64_value_def)
  have l: "length [0::byte] \<noteq> 64" by simp
  show ?thesis using k d l create_bad_key_length [OF k d l] by simp
qed

text \<open>
  C28: Restoring does not check the key pair: the public key returned is the last 32
  bytes of whatever 64 bytes were given, whether or not they are the public key of
  the seed in the first 32.
\<close>

theorem create_restore_public_suffix:
  "k \<noteq> [] \<Longrightarrow> decodeBase64 k = Inr sk \<Longrightarrow> length sk = 64 \<Longrightarrow>
   fst (create lib (Some k) g) = Inr \<lparr>publickey = encodeBase64 (drop 32 sk), privatekey = encodeBase64 sk\<rparr>"
  by (simp add: create_Some sign_keyPair_fromSecretKey_def keys_b64_def)

theorem create_restore_public_suffix_witness:
  "encodeBase64 (replicate 64 0) \<noteq> [] \<and> decodeBase64 (encodeBase64 (replicate 64 0)) = Inr (replicate 64 0) \<and>
   length (replicate 64 (0::byte)) = 64 \<and>
   fst (create toy_nacl (Some (encodeBase64 (replicate 64 0))) g0) =
     Inr \<lparr>publickey = encodeBase64 (drop 32 (replicate 64 0)), privatekey = encodeBase64 (replicate 64 0)\<rparr>"
proof -
  have k: "encodeBase64 (replicate 64 (0::byte)) \<noteq> []"
    by (simp add: length_encodeBase64 flip: length_greater_0_conv)
  have d: "decodeBase64 (encodeBase64 (replicate 64 0)) = Inr (replicate 64 (0::byte))"
    by (rule decodeBase64_encodeBase64)
  have l: "length (replicate 64 (0::byte)) = 64" by simp
  show ?thesis using k d l create_restore_public_suffix [OF k d l] by simp
qed

text \<open>
  C29: Key strings have fixed lengths: whenever \<^verbatim>\<open>create\<close> returns, generated or
  restored, the public key is 44 base64 characters (32 bytes) and the private key
  88 characters (64 bytes).
\<close>

theorem create_key_lengths:
  assumes "nacl_laws lib" "fst (create lib k g) = Inr ks"
  shows "length (publickey ks) = 44 \<and> length (privatekey ks) = 88"
proof (cases "js_truthy k")
  case True
  then obtain k' where k: "k = Some k'" "k' \<noteq> []" by (cases k) (auto simp: js_truthy_def)
  with assms(2) obtain sk where "length sk = 64" "ks = keys_b64 \<lparr>publicKey = drop 32 sk, secretKey = sk\<rparr>"
    by (auto simp: create_Some bindE_eq_Inr_iff sign_keyPair_fromSecretKey_def split: if_splits)
  then show ?thesis by (simp add: keys_b64_def length_encodeBase64)
next
  case False
  then have "fst (create lib k g) = fst (create lib None g)" by (simp add: create_def js_truthy_def)
  with assms(2) obtain seed where "length seed = 32" "publickey ks = encodeBase64 (sign_pk_of_seed lib seed)"
    "privatekey ks = encodeBase64 (ed_secret lib seed)"
    using generated_keys by metis
  with assms(1) show ?thesis by (simp add: length_encodeBase64 sign_pk_length ed_secret_length)
qed

theorem create_key_lengths_witness:
  "nacl_laws toy_nacl \<and> fst (create toy_nacl None g0) = Inr (keys_b64 (fst (sign_keyPair toy_nacl g0))) \<and>
   length (publickey (keys_b64 (fst (sign_keyPair toy_nacl g0)))) = 44 \<and>
   length (privatekey (keys_b64 (fst (sign_keyPair toy_nacl g0)))) = 88"
proof -
  have c: "fst (create toy_nacl None g0) = Inr (keys_b64 (fst (sign_keyPair toy_nacl g0)))"
    by (simp add: create_None)
  show ?thesis using toy_nacl_laws c create_key_lengths [OF toy_nacl_laws c] by simp
qed

end
