(* ===== verification/Signer.thy ===== *)
theory Signer
  imports Utf8 KeyManager
begin

text \<open>
  Attached signatures: \<^verbatim>\<open>sign(msg, privkey)\<close> and \<^verbatim>\<open>verify(signedmsg, pubkey)\<close>
  (src/saltshaker.js, lines 113--127). \<^verbatim>\<open>sign\<close> evaluates its arguments left to
  right (\<^verbatim>\<open>decodeUTF8\<close>, then \<^verbatim>\<open>decodeBase64\<close>), signs and encodes. \<^verbatim>\<open>verify\<close>
  returns \<^verbatim>\<open>null\<close> (\<open>Inr None\<close>) when \<^verbatim>\<open>nacl.sign.open\<close> returns \<^verbatim>\<open>null\<close>; any
  other value is a \<^verbatim>\<open>Uint8Array\<close>, truthy even when empty, and goes through
  \<^verbatim>\<open>_decoder\<close>.
\<close>

definition sign :: "nacl \<Rightarrow> jsstr \<Rightarrow> jsstr \<Rightarrow> jsstr js" where
  "sign lib msg privkey =
     bindE (decodeUTF8 msg) (\<lambda>m. bindE (decodeBase64 privkey) (\<lambda>sk.
       mapE encodeBase64 (nacl_sign lib m sk)))"

definition verify :: "nacl \<Rightarrow> jsstr \<Rightarrow> jsstr \<Rightarrow> jsstr option js" where
  "verify lib signedmsg pubkey =
     bindE (decodeBase64 signedmsg) (\<lambda>sm. bindE (decodeBase64 pubkey) (\<lambda>pk.
       bindE (nacl_sign_open lib sm pk) (\<lambda>returnv.
         case returnv of None \<Rightarrow> Inr None | Some m \<Rightarrow> mapE Some (decoder (Some m)))))"

section \<open>Lemmas\<close>

text \<open>Signing under the secret key of a seed, and opening the result.\<close>

lemma sign_seed:
  assumes "nacl_laws lib" "length seed = 32" "decodeUTF8 msg = Inr m"
  shows "sign lib msg (encodeBase64 (ed_secret lib seed)) =
    Inr (encodeBase64 (sign_detached lib m (ed_secret lib seed) @ m))"
  using assms by (simp add: sign_def decodeBase64_encodeBase64 nacl_sign_def ed_secret_length)

lemma sign_open_seed:
  assumes "nacl_laws lib" "length seed = 32" "length pk = 32"
  shows "nacl_sign_open lib (sign_detached lib m (ed_secret lib seed) @ m) pk =
    Inr (if pk = sign_pk_of_seed lib seed then Some m else None)"
proof -
  have l: "length (sign_detached lib m (ed_secret lib seed)) = 64"
    using assms(1,2) by (simp add: sign_detached_length ed_secret_length)
  have "sign_valid lib pk m (sign_detached lib m (ed_secret lib seed)) \<longleftrightarrow> pk = sign_pk_of_seed lib seed"
    using sign_binding [OF assms(1,2)] sign_correct [OF assms(1,2)] by blast
  with l assms(3) show ?thesis by (simp add: nacl_sign_open_def)
qed

lemma verify_seed:
  assumes "nacl_laws lib" "length seed = 32" "length pk = 32"
  shows "verify lib (encodeBase64 (sign_detached lib m (ed_secret lib seed) @ m)) (encodeBase64 pk) =
    (if pk = sign_pk_of_seed lib seed then Inr (Some (decode_ref m)) else Inr None)"
  using assms by (simp add: verify_def decodeBase64_encodeBase64 sign_open_seed decoder_def decoder_loop_ref)

lemma sign_InrE:
  assumes "sign lib msg privkey = Inr s"
  obtains m sk where "decodeUTF8 msg = Inr m" "decodeBase64 privkey = Inr sk" "length sk = 64"
    "s = encodeBase64 (sign_detached lib m sk @ m)"
  using assms by (auto simp: sign_def bindE_eq_Inr_iff nacl_sign_def split: if_splits)

section \<open>Properties of sign and verify\<close>

text \<open>
  C2: Signature round trip (spec, section 8): for a library that keeps the contract,
  a key pair freshly generated by \<^verbatim>\<open>create()\<close> and a message without surrogate
  code units, \<^verbatim>\<open>sign\<close> under the private key succeeds and \<^verbatim>\<open>verify\<close> under the
  public key returns the message.
\<close>

theorem verify_sign:
  assumes "nacl_laws lib" "list_all (\<lambda>u. \<not> is_surrogate u) msg" "fst (create lib None g) = Inr ks"
  shows "\<exists>s. sign lib msg (privatekey ks) = Inr s \<and> verify lib s (publickey ks) = Inr (Some msg)"
proof -
  from generated_keys [OF assms(3)] obtain seed where s: "length seed = 32"
    and pub: "publickey ks = encodeBase64 (sign_pk_of_seed lib seed)"
    and priv: "privatekey ks = encodeBase64 (ed_secret lib seed)" by blast
  from decodeUTF8_decoder_id [OF assms(2)] obtain m
    where e: "decodeUTF8 msg = Inr m" and d: "decoder (Some m) = Inr msg" by blast
  from d have "decode_ref m = msg" by (simp add: decoder_def decoder_loop_ref)
  with assms(1) s e pub priv show ?thesis
    by (simp add: sign_seed verify_seed sign_pk_length)
qed

theorem verify_sign_witness:
  "nacl_laws toy_nacl \<and> list_all (\<lambda>u. \<not> is_surrogate u) (js_lit ''hi'') \<and>
   fst (create toy_nacl None g0) = Inr (keys_b64 (fst (sign_keyPair toy_nacl g0))) \<and>
   (\<exists>s. sign toy_nacl (js_lit ''hi'') (privatekey (keys_b64 (fst (sign_keyPair toy_nacl g0)))) = Inr s \<and>
      verify toy_nacl s (publickey (keys_b64 (fst (sign_keyPair toy_nacl g0)))) = Inr (Some (js_lit ''hi'')))"
proof -
  have a: "list_all (\<lambda>u. \<not> is_surrogate u) (js_lit ''hi'')" by (simp add: js_lit_def is_surrogate_def)
  have c: "fst (create toy_nacl None g0) = Inr (keys_b64 (fst (sign_keyPair toy_nacl g0)))"
    by (simp add: create_None)
  show ?thesis using toy_nacl_laws a c verify_sign [OF toy_nacl_laws a c] by blast
qed

text \<open>
  C8: Key mismatch (spec, section 8): a message signed under a generated key pair and
  checked against any other 32-byte public key gives the "not verified" result
  \<^verbatim>\<open>null\<close>, not an exception.
\<close>

theorem verify_unrelated_key:
  assumes "nacl_laws lib" "fst (create lib None g) = Inr ks" "sign lib msg (privatekey ks) = Inr s"
    and "decodeBase64 pubkey' = Inr pk" "length pk = 32" "decodeBase64 (publickey ks) \<noteq> Inr pk"
  shows "verify lib s pubkey' = Inr None"
proof -
  from generated_keys [OF assms(2)] obtain seed where l: "length seed = 32"
    and pub: "publickey ks = encodeBase64 (sign_pk_of_seed lib seed)"
    and priv: "privatekey ks = encodeBase64 (ed_secret lib seed)" by blast
  from assms(3) priv obtain m where "decodeUTF8 msg = Inr m"
    and s: "s = encodeBase64 (sign_detached lib m (ed_secret lib seed) @ m)"
    by (auto elim: sign_InrE simp: decodeBase64_encodeBase64)
  from assms(6) pub have "pk \<noteq> sign_pk_of_seed lib seed" by (auto simp: decodeBase64_encodeBase64)
  with assms(1,4,5) l s show ?thesis
    by (simp add: verify_def decodeBase64_encodeBase64 sign_open_seed)
qed

theorem verify_unrelated_key_witness:
  "nacl_laws toy_nacl \<and> fst (create toy_nacl None g0) = Inr (keys_b64 (fst (sign_keyPair toy_nacl g0))) \<and>
   sign toy_nacl [] (privatekey (keys_b64 (fst (sign_keyPair toy_nacl g0)))) =
     Inr (encodeBase64 (sign_detached toy_nacl [] (secretKey (fst (sign_keyPair toy_nacl g0))))) \<and>
   decodeBase64 (encodeBase64 (replicate 32 0)) = Inr (replicate 32 0) \<and> length (replicate 32 (0::byte)) = 32 \<and>
   decodeBase64 (publickey (keys_b64 (fst (sign_keyPair toy_nacl g0)))) \<noteq> Inr (replicate 32 0) \<and>
   verify toy_nacl (encodeBase64 (sign_detached toy_nacl [] (secretKey (fst (sign_keyPair toy_nacl g0)))))
     (encodeBase64 (replicate 32 0)) = Inr None"
proof -
  have c: "fst (create toy_nacl None g0) = Inr (keys_b64 (fst (sign_keyPair toy_nacl g0)))"
    by (simp add: create_None)
  have s: "sign toy_nacl [] (privatekey (keys_b64 (fst (sign_keyPair toy_nacl g0)))) =
     Inr (encodeBase64 (sign_detached toy_nacl [] (secretKey (fst (sign_keyPair toy_nacl g0)))))"
    by (simp add: sign_def keys_b64_def sign_keyPair_def randomBytes_def decodeBase64_encodeBase64
        nacl_sign_def toy_nacl_def ed_secret_def)
  have d: "decodeBase64 (encodeBase64 (replicate 32 0)) = Inr (replicate 32 (0::byte))"
    by (rule decodeBase64_encodeBase64)
  have l: "length (replicate 32 (0::byte)) = 32" by simp
  have "decodeBase64 (publickey (keys_b64 (fst (sign_keyPair toy_nacl g0)))) =
      Inr (sign_pk_of_seed toy_nacl (map (\<lambda>k. pool g0 (drawn g0 + k)) [0..<32]))"
    by (simp add: keys_b64_def sign_keyPair_def randomBytes_def decodeBase64_encodeBase64)
  moreover have "hd (sign_pk_of_seed toy_nacl (map (\<lambda>k. pool g0 (drawn g0 + k)) [0..<32])) \<noteq>
      hd (replicate 32 (0::byte))"
    by (simp add: toy_nacl_def g0_def upt_rec)
  ultimately have n: "decodeBase64 (publickey (keys_b64 (fst (sign_keyPair toy_nacl g0)))) \<noteq> Inr (replicate 32 0)"
    by auto
  show ?thesis using toy_nacl_laws c s d l n verify_unrelated_key [OF toy_nacl_laws c s d l n] by blast
qed

text \<open>
  C31: A public key that does not decode to 32 bytes is not a "not verified" outcome:
  \<^verbatim>\<open>verify\<close> throws tweetnacl's \<^verbatim>\<open>Error('bad public key size')\<close>, whatever the
  signed message.
\<close>

theorem verify_bad_pubkey:
  "decodeBase64 signedmsg = Inr sm \<Longrightarrow> decodeBase64 pubkey = Inr pk \<Longrightarrow> length pk \<noteq> 32 \<Longrightarrow>
   verify lib signedmsg pubkey = Inl BadPublicKeySize"
  by (simp add: verify_def nacl_sign_open_def)

theorem verify_bad_pubkey_witness:
  "decodeBase64 [] = Inr [] \<and> decodeBase64 (encodeBase64 [0]) = Inr [0] \<and> length [0::byte] \<noteq> 32 \<and>
   verify toy_nacl [] (encodeBase64 [0]) = Inl BadPublicKeySize"
proof -
  have a: "decodeBase64 [] = Inr []" by (simp add: decodeBase64_def)
  have b: "decodeBase64 (encodeBase64 [0]) = Inr [0::byte]" by (rule decodeBase64_encodeBase64)
  have l: "length [0::byte] \<noteq> 32" by simp
  show ?thesis using a b l verify_bad_pubkey [OF a b l] by simp
qed

text \<open>
  C32: \<^verbatim>\<open>sign\<close> rejects a private key that does not decode to 64 bytes with
  \<^verbatim>\<open>Error('bad secret key size')\<close> (the spec's \<open>InvalidKeyError\<close>).
\<close>

theorem sign_bad_key:
  "decodeUTF8 msg = Inr m \<Longrightarrow> decodeBase64 privkey = Inr sk \<Longrightarrow> length sk \<noteq> 64 \<Longrightarrow>
   sign lib msg privkey = Inl BadSecretKeySize"
  by (simp add: sign_def nacl_sign_def)

theorem sign_bad_key_witness:
  "decodeUTF8 [] = Inr [] \<and> decodeBase64 (encodeBase64 [0]) = Inr [0] \<and> length [0::byte] \<noteq> 64 \<and>
   sign toy_nacl [] (encodeBase64 [0]) = Inl BadSecretKeySize"
proof -
  have a: "decodeUTF8 [] = Inr []" by simp
  have b: "decodeBase64 (encodeBase64 [0]) = Inr [0::byte]" by (rule decodeBase64_encodeBase64)
  have l: "length [0::byte] \<noteq> 64" by simp
  show ?thesis using a b l sign_bad_key [OF a b l] by simp
qed

text \<open>
  C33: Attached-signature format (spec, section 6): whatever \<^verbatim>\<open>sign\<close> returns is the
  base64 of a 64-byte signature followed by the UTF-8 bytes of the message.
\<close>

theorem sign_attached_format:
  assumes "nacl_laws lib" "sign lib msg privkey = Inr s"
  shows "\<exists>sig m. decodeUTF8 msg = Inr m \<and> length sig = 64 \<and> decodeBase64 s = Inr (sig @ m)"
proof -
  from assms(2) obtain m sk where "decodeUTF8 msg = Inr m" "length sk = 64"
    "s = encodeBase64 (sign_detached lib m sk @ m)" by (rule sign_InrE)
  with assms(1) show ?thesis by (simp add: decodeBase64_encodeBase64 sign_detached_length)
qed

theorem sign_attached_format_witness:
  "nacl_laws toy_nacl \<and> sign toy_nacl [] (encodeBase64 (replicate 64 0)) = Inr (encodeBase64 (replicate 64 0)) \<and>
   (\<exists>sig m. decodeUTF8 [] = Inr m \<and> length sig = 64 \<and>
      decodeBase64 (encodeBase64 (replicate 64 0)) = Inr (sig @ m))"
proof -
  have s: "sign toy_nacl [] (encodeBase64 (replicate 64 0)) = Inr (encodeBase64 (replicate 64 0))"
    by (simp add: sign_def decodeBase64_encodeBase64 nacl_sign_def toy_nacl_def flip: replicate_add)
  show ?thesis using toy_nacl_laws s sign_attached_format [OF toy_nacl_laws s] by blast
qed

end
