(* ===== verification/AsymCrypto.thy ===== *)
theory AsymCrypto
  imports Utf8 KeyManager
begin

text \<open>
  Public-key encryption: \<^verbatim>\<open>encrypt(msg, pubkey, privkey)\<close> and
  \<^verbatim>\<open>decrypt(msg, nonce, pubkey, privkey)\<close> (src/saltshaker.js, lines 129--146).
  Both convert the Ed25519 keys with ed2curve: \<^verbatim>\<open>convertPublicKey\<close> returns
  \<^verbatim>\<open>null\<close> for a point that does not convert, \<^verbatim>\<open>convertSecretKey\<close> always returns
  32 bytes. \<^verbatim>\<open>encrypt\<close> draws the nonce first; the arguments of \<^verbatim>\<open>nacl.box\<close> are
  then evaluated left to right, and the envelope's \<^verbatim>\<open>message\<close> field before its
  \<^verbatim>\<open>nonce\<close> field.
\<close>

definition encrypt :: "nacl \<Rightarrow> jsstr \<Rightarrow> jsstr \<Rightarrow> jsstr \<Rightarrow> entropy \<Rightarrow> envelope js \<times> entropy" where
  "encrypt lib msg pubkey privkey g =
     (let (n, g') = randomBytes nonceLength g
      in (bindE (decodeUTF8 msg) (\<lambda>m. bindE (decodeBase64 pubkey) (\<lambda>pk. bindE (decodeBase64 privkey) (\<lambda>sk.
            mapE (\<lambda>c. \<lparr>message = encodeBase64 c, nonce = encodeBase64 n\<rparr>)
              (nacl_box lib m n (convert_public lib pk) (convert_secret lib sk))))), g'))"

definition decrypt :: "nacl \<Rightarrow> jsstr \<Rightarrow> jsstr \<Rightarrow> jsstr \<Rightarrow> jsstr \<Rightarrow> jsstr js" where
  "decrypt lib msg nonce64 pubkey privkey =
     bindE (decodeBase64 msg) (\<lambda>c. bindE (decodeBase64 nonce64) (\<lambda>n.
       bindE (decodeBase64 pubkey) (\<lambda>pk. bindE (decodeBase64 privkey) (\<lambda>sk.
         bindE (nacl_box_open lib c n (convert_public lib pk) (convert_secret lib sk)) decoder))))"

section \<open>Lemmas\<close>

text \<open>The X25519 secret that ed2curve derives from the Ed25519 secret key of a seed.\<close>

definition curve_secret :: "nacl \<Rightarrow> bytes \<Rightarrow> bytes" where
  "curve_secret lib seed = convert_secret lib (ed_secret lib seed)"

lemma encrypt_Inr:
  assumes "decodeUTF8 msg = Inr m" "decodeBase64 pubkey = Inr pk" "decodeBase64 privkey = Inr sk"
    "box_checks (fst (randomBytes nonceLength g)) (convert_public lib pk) (convert_secret lib sk) = Inr pk'"
  shows "encrypt lib msg pubkey privkey g =
    (Inr \<lparr>message = encodeBase64 (box_seal lib m (fst (randomBytes nonceLength g)) pk' (convert_secret lib sk)),
          nonce = encodeBase64 (fst (randomBytes nonceLength g))\<rparr>,
     snd (randomBytes nonceLength g))"
  using assms by (simp add: encrypt_def nacl_box_def randomBytes_def)

lemma box_checks_seed:
  assumes "nacl_laws lib" "length seed = 32" "length n = nonceLength"
  shows "box_checks n (convert_public lib (sign_pk_of_seed lib seed)) (convert_secret lib sk) =
    Inr (curve_public lib (curve_secret lib seed))"
  using assms by (simp add: box_checks_def convert_public_seed curve_public_length convert_secret_length
    curve_secret_def)

lemma decrypt_Inr_iff:
  assumes "decodeBase64 msg = Inr c" "decodeBase64 nonce64 = Inr n" "decodeBase64 pubkey = Inr pk"
    "decodeBase64 privkey = Inr sk"
    "box_checks n (convert_public lib pk) (convert_secret lib sk) = Inr pk'"
  shows "decrypt lib msg nonce64 pubkey privkey =
    (case box_unseal lib c n pk' (convert_secret lib sk) of
       None \<Rightarrow> Inl NullProperty
     | Some m \<Rightarrow> Inr (decode_ref m))"
  using assms by (simp add: decrypt_def nacl_box_open_def decoder_def decoder_loop_ref split: option.splits)

lemma box_open_seeds:
  assumes "nacl_laws lib" "length sA = 32" "length sB = 32" "length n = nonceLength"
  shows "box_unseal lib (box_seal lib m n (curve_public lib (curve_secret lib sB)) (convert_secret lib (ed_secret lib sA)))
           n (curve_public lib (curve_secret lib sA)) (convert_secret lib (ed_secret lib sB)) = Some m"
  using box_correct [OF assms(1), of "curve_secret lib sA" "curve_secret lib sB" n m] assms
  by (simp add: curve_secret_def convert_secret_length)

lemma decrypt_sealed:
  assumes "nacl_laws lib" "length sA = 32" "length sB = 32" "length n = nonceLength"
  shows "decrypt lib (encodeBase64 (box_seal lib m n (curve_public lib (curve_secret lib sB))
                                   (convert_secret lib (ed_secret lib sA))))
          (encodeBase64 n) (encodeBase64 (sign_pk_of_seed lib sA)) (encodeBase64 (ed_secret lib sB)) =
         Inr (decode_ref m)"
  by (subst decrypt_Inr_iff [where pk' = "curve_public lib (curve_secret lib sA)"])
     (simp add: decodeBase64_encodeBase64 box_checks_seed assms box_open_seeds)+

section \<open>Properties of encrypt and decrypt\<close>

text \<open>
  C3: Box round trip (spec, section 8): for a library that keeps the contract, key
  pairs A and B generated by \<^verbatim>\<open>create()\<close> and a message without surrogate code
  units, \<^verbatim>\<open>encrypt(m, B.publickey, A.privatekey)\<close> returns an envelope, and
  \<^verbatim>\<open>decrypt\<close> of its fields with \<^verbatim>\<open>A.publickey\<close> and \<^verbatim>\<open>B.privatekey\<close> returns
  the message.
\<close>

theorem decrypt_encrypt:
  assumes "nacl_laws lib" "list_all (\<lambda>u. \<not> is_surrogate u) msg"
    and "fst (create lib None gA) = Inr A" "fst (create lib None gB) = Inr B"
  shows "\<exists>env. fst (encrypt lib msg (publickey B) (privatekey A) g) = Inr env \<and>
           decrypt lib (message env) (nonce env) (publickey A) (privatekey B) = Inr msg"
proof -
  from generated_keys [OF assms(3)] obtain sA where a: "length sA = 32"
    and pa: "publickey A = encodeBase64 (sign_pk_of_seed lib sA)"
    and ka: "privatekey A = encodeBase64 (ed_secret lib sA)" by blast
  from generated_keys [OF assms(4)] obtain sB where b: "length sB = 32"
    and pb: "publickey B = encodeBase64 (sign_pk_of_seed lib sB)"
    and kb: "privatekey B = encodeBase64 (ed_secret lib sB)" by blast
  from decodeUTF8_decoder_id [OF assms(2)] obtain m
    where e: "decodeUTF8 msg = Inr m" and d: "decoder (Some m) = Inr msg" by blast
  from d have dm: "decode_ref m = msg" by (simp add: decoder_def decoder_loop_ref)
  define n where "n = fst (randomBytes nonceLength g)"
  have ln: "length n = nonceLength" by (simp add: n_def)
  have enc: "encrypt lib msg (publickey B) (privatekey A) g =
    (Inr \<lparr>message = encodeBase64 (box_seal lib m n (curve_public lib (curve_secret lib sB))
                                   (convert_secret lib (ed_secret lib sA))),
          nonce = encodeBase64 n\<rparr>, snd (randomBytes nonceLength g))"
    unfolding n_def
    by (rule encrypt_Inr [OF e]) (simp add: pb ka decodeBase64_encodeBase64 box_checks_seed assms(1) b)+
  have "decrypt lib (encodeBase64 (box_seal lib m n (curve_public lib (curve_secret lib sB))
                                   (convert_secret lib (ed_secret lib sA))))
          (encodeBase64 n) (publickey A) (privatekey B) = Inr (decode_ref m)"
    using decrypt_sealed [OF assms(1) a b ln, of m] pa kb by simp
  with enc dm show ?thesis by simp
qed

theorem decrypt_encrypt_witness:
  "nacl_laws toy_nacl \<and> list_all (\<lambda>u. \<not> is_surrogate u) (js_lit ''hi'') \<and>
   fst (create toy_nacl None g0) = Inr (keys_b64 (fst (sign_keyPair toy_nacl g0))) \<and>
   fst (create toy_nacl None (snd (create toy_nacl None g0))) =
     Inr (keys_b64 (fst (sign_keyPair toy_nacl (snd (sign_keyPair toy_nacl g0))))) \<and>
   (\<exists>env. fst (encrypt toy_nacl (js_lit ''hi'') (publickey (keys_b64 (fst (sign_keyPair toy_nacl (snd (sign_keyPair toy_nacl g0))))))
                 (privatekey (keys_b64 (fst (sign_keyPair toy_nacl g0)))) g0) = Inr env \<and>
      decrypt toy_nacl (message env) (nonce env) (publickey (keys_b64 (fst (sign_keyPair toy_nacl g0))))
        (privatekey (keys_b64 (fst (sign_keyPair toy_nacl (snd (sign_keyPair toy_nacl g0)))))) = Inr (js_lit ''hi''))"
proof -
  have a: "list_all (\<lambda>u. \<not> is_surrogate u) (js_lit ''hi'')" by (simp add: js_lit_def is_surrogate_def)
  have ca: "fst (create toy_nacl None g0) = Inr (keys_b64 (fst (sign_keyPair toy_nacl g0)))"
    by (simp add: create_None)
  have cb: "fst (create toy_nacl None (snd (create toy_nacl None g0))) =
     Inr (keys_b64 (fst (sign_keyPair toy_nacl (snd (sign_keyPair toy_nacl g0)))))"
    by (simp add: create_None)
  show ?thesis using toy_nacl_laws a ca cb decrypt_encrypt [OF toy_nacl_laws a ca cb] by blast
qed

text \<open>
  C34: A recipient key that ed2curve cannot convert is not reported as a key
  conversion failure: \<^verbatim>\<open>convertPublicKey\<close> returns \<^verbatim>\<open>null\<close>, and
  \<^verbatim>\<open>nacl.box\<close> throws \<^verbatim>\<open>TypeError('unexpected type')\<close> on it. The nonce has
  been drawn all the same.
\<close>

theorem encrypt_unconvertible_key:
  assumes "decodeUTF8 msg = Inr m" "decodeBase64 pubkey = Inr pk" "convert_public lib pk = None"
    and "decodeBase64 privkey = Inr sk"
  shows "encrypt lib msg pubkey privkey g = (Inl UnexpectedType, g\<lparr>drawn := drawn g + nonceLength\<rparr>)"
  using assms by (simp add: encrypt_def randomBytes_def nacl_box_def box_checks_def)

theorem encrypt_unconvertible_key_witness:
  "decodeUTF8 [] = Inr [] \<and> decodeBase64 (encodeBase64 [0]) = Inr [0] \<and>
   convert_public toy_nacl [0] = None \<and> decodeBase64 (encodeBase64 [0]) = Inr [0] \<and>
   encrypt toy_nacl [] (encodeBase64 [0]) (encodeBase64 [0]) g0 = (Inl UnexpectedType, g0\<lparr>drawn := drawn g0 + nonceLength\<rparr>)"
proof -
  have a: "decodeUTF8 [] = Inr []" by simp
  have b: "decodeBase64 (encodeBase64 [0]) = Inr [0::byte]" by (rule decodeBase64_encodeBase64)
  have c: "convert_public toy_nacl [0] = None" by (simp add: toy_nacl_def)
  show ?thesis using a b c encrypt_unconvertible_key [OF a b c b] by simp
qed

text \<open>
  C35: \<^verbatim>\<open>encrypt\<close> does not validate the sender's private key: ed2curve's
  \<^verbatim>\<open>convertSecretKey\<close> hashes whatever it is given into a 32-byte key, so a
  private key of any length, even empty, yields an envelope once the recipient key
  converts.
\<close>

theorem encrypt_any_private_key:
  assumes "nacl_laws lib" "decodeUTF8 msg = Inr m" "decodeBase64 pubkey = Inr pk"
    and "convert_public lib pk = Some pk'" "length pk' = 32" "decodeBase64 privkey = Inr sk"
  shows "\<exists>env. fst (encrypt lib msg pubkey privkey g) = Inr env"
  using assms by (simp add: encrypt_def randomBytes_def nacl_box_def box_checks_def convert_secret_length)

theorem encrypt_any_private_key_witness:
  "nacl_laws toy_nacl \<and> decodeUTF8 [] = Inr [] \<and>
   decodeBase64 (encodeBase64 (replicate 32 0)) = Inr (replicate 32 0) \<and>
   convert_public toy_nacl (replicate 32 0) = Some (replicate 32 0) \<and> length (replicate 32 (0::byte)) = 32 \<and>
   decodeBase64 [] = Inr [] \<and>
   (\<exists>env. fst (encrypt toy_nacl [] (encodeBase64 (replicate 32 0)) [] g0) = Inr env)"
proof -
  have a: "decodeUTF8 [] = Inr []" by simp
  have b: "decodeBase64 (encodeBase64 (replicate 32 0)) = Inr (replicate 32 (0::byte))"
    by (rule decodeBase64_encodeBase64)
  have c: "convert_public toy_nacl (replicate 32 0) = Some (replicate 32 0)" by (simp add: toy_nacl_def)
  have l: "length (replicate 32 (0::byte)) = 32" by simp
  have d: "decodeBase64 [] = Inr []" by (simp add: decodeBase64_def)
  show ?thesis using toy_nacl_laws a b c l d encrypt_any_private_key [OF toy_nacl_laws a b c l d] by blast
qed

text \<open>
  C14: Once its inputs decode and pass tweetnacl's checks, \<^verbatim>\<open>decrypt\<close> fails
  exactly when the box does not open, and then with the \<^verbatim>\<open>TypeError\<close> of
  \<^verbatim>\<open>_decoder(null)\<close>; an opened box, even of an empty message, is returned as
  text. Failure is therefore distinguishable from the empty message, but it is not
  the spec's \<open>AuthenticationError\<close>.
\<close>

theorem decrypt_auth_failure:
  assumes "decodeBase64 msg = Inr c" "decodeBase64 nonce64 = Inr n" "decodeBase64 pubkey = Inr pk"
    and "decodeBase64 privkey = Inr sk"
    and "box_checks n (convert_public lib pk) (convert_secret lib sk) = Inr pk'"
  shows "(decrypt lib msg nonce64 pubkey privkey = Inl NullProperty) =
           (box_unseal lib c n pk' (convert_secret lib sk) = None) \<and>
         (box_unseal lib c n pk' (convert_secret lib sk) = Some [] \<longrightarrow>
           decrypt lib msg nonce64 pubkey privkey = Inr [])"
  using decrypt_Inr_iff [OF assms] by (simp split: option.splits)

theorem decrypt_auth_failure_witness:
  "decodeBase64 [] = Inr [] \<and> decodeBase64 (encodeBase64 (replicate 24 0)) = Inr (replicate 24 0) \<and>
   decodeBase64 (encodeBase64 (replicate 32 0)) = Inr (replicate 32 0) \<and>
   box_checks (replicate 24 0) (convert_public toy_nacl (replicate 32 0)) (convert_secret toy_nacl (replicate 32 0)) =
     Inr (replicate 32 0) \<and>
   (decrypt toy_nacl [] (encodeBase64 (replicate 24 0)) (encodeBase64 (replicate 32 0)) (encodeBase64 (replicate 32 0))
      = Inl NullProperty) =
   (box_unseal toy_nacl [] (replicate 24 0) (replicate 32 0) (convert_secret toy_nacl (replicate 32 0)) = None)"
proof -
  have a: "decodeBase64 [] = Inr []" by (simp add: decodeBase64_def)
  have n: "decodeBase64 (encodeBase64 (replicate 24 0)) = Inr (replicate 24 (0::byte))"
    by (rule decodeBase64_encodeBase64)
  have k: "decodeBase64 (encodeBase64 (replicate 32 0)) = Inr (replicate 32 (0::byte))"
    by (rule decodeBase64_encodeBase64)
  have c: "box_checks (replicate 24 0) (convert_public toy_nacl (replicate 32 0)) (convert_secret toy_nacl (replicate 32 0)) =
     Inr (replicate 32 0)"
    by (simp add: box_checks_def toy_nacl_def pad32_id)
  show ?thesis using a n k c decrypt_auth_failure [OF a n k k c] by simp
qed

text \<open>
  \<^verbatim>\<open>encrypt\<close> draws exactly one 24-byte nonce, before anything can throw,
  and the envelope's nonce field is the base64 of those bytes.
\<close>

theorem encrypt_entropy:
  "snd (encrypt lib msg pubkey privkey g) = g\<lparr>drawn := drawn g + 24\<rparr> \<and>
   (case fst (encrypt lib msg pubkey privkey g) of
      Inl e \<Rightarrow> True
    | Inr env \<Rightarrow> decodeBase64 (nonce env) = Inr (map (\<lambda>k. pool g (drawn g + k)) [0..<24]))"
  by (auto simp: encrypt_def randomBytes_def nacl_box_def bindE_def mapE_def decodeBase64_encodeBase64
      split: sum.splits)

text \<open>
  C16: Integrity of box envelopes (spec, section 8, tamper sensitivity): for a
  library that keeps the contract and key pairs A and B generated by
  \<^verbatim>\<open>create()\<close>, whatever two strings \<^verbatim>\<open>decrypt\<close> accepts with A's public key
  and B's private key decode to a nonce and to exactly the box that
  \<^verbatim>\<open>encrypt(m, B.publickey, A.privatekey)\<close> computes for the returned bytes under
  that nonce. A ciphertext or nonce changed as bytes is rejected.
\<close>

theorem decrypt_integrity:
  assumes "nacl_laws lib" "fst (create lib None gA) = Inr A" "fst (create lib None gB) = Inr B"
    and "decrypt lib msg nonce64 (publickey A) (privatekey B) = Inr s"
  shows "\<exists>c n m pkB skA pk'. decodeBase64 msg = Inr c \<and> decodeBase64 nonce64 = Inr n \<and>
           decodeBase64 (publickey B) = Inr pkB \<and> decodeBase64 (privatekey A) = Inr skA \<and>
           convert_public lib pkB = Some pk' \<and> c = box_seal lib m n pk' (convert_secret lib skA) \<and>
           s = decode_ref m"
proof -
  from generated_keys [OF assms(2)] obtain sA where a: "length sA = 32"
    and pa: "publickey A = encodeBase64 (sign_pk_of_seed lib sA)"
    and ka: "privatekey A = encodeBase64 (ed_secret lib sA)" by blast
  from generated_keys [OF assms(3)] obtain sB where b: "length sB = 32"
    and pb: "publickey B = encodeBase64 (sign_pk_of_seed lib sB)"
    and kb: "privatekey B = encodeBase64 (ed_secret lib sB)" by blast
  obtain c n where c: "decodeBase64 msg = Inr c" and n: "decodeBase64 nonce64 = Inr n"
    using assms(4) by (cases "decodeBase64 msg"; cases "decodeBase64 nonce64") (simp_all add: decrypt_def)
  have ln: "length n = nonceLength"
  proof (rule ccontr)
    assume "length n \<noteq> nonceLength"
    with assms(1,4) a b c n pa kb show False
      by (simp add: decrypt_def decodeBase64_encodeBase64 nacl_box_open_def box_checks_def convert_public_seed
          curve_public_length convert_secret_length)
  qed
  have "decrypt lib msg nonce64 (publickey A) (privatekey B) =
      (case box_unseal lib c n (curve_public lib (curve_secret lib sA)) (convert_secret lib (ed_secret lib sB)) of
         None \<Rightarrow> Inl NullProperty | Some m \<Rightarrow> Inr (decode_ref m))"
    by (rule decrypt_Inr_iff [OF c n]) (simp add: pa kb decodeBase64_encodeBase64 box_checks_seed assms(1) a ln)+
  with assms(4) obtain m where u: "box_unseal lib c n (curve_public lib (curve_secret lib sA))
      (curve_secret lib sB) = Some m" and sm: "s = decode_ref m"
    by (auto simp: curve_secret_def split: option.splits)
  have "c = box_seal lib m n (curve_public lib (curve_secret lib sB)) (curve_secret lib sA)"
    using box_integrity [OF assms(1) _ _ _ u] ln by (simp add: curve_secret_def convert_secret_length assms(1))
  with c n sm a b assms(1) show ?thesis
    by (simp add: pb ka decodeBase64_encodeBase64 convert_public_seed curve_secret_def) blast
qed

theorem decrypt_integrity_witness:
  "nacl_laws toy_nacl \<and> fst (create toy_nacl None g0) = Inr (keys_b64 (fst (sign_keyPair toy_nacl g0))) \<and>
   fst (create toy_nacl None (snd (create toy_nacl None g0))) = Inr (keys_b64 (fst (sign_keyPair toy_nacl (snd (sign_keyPair toy_nacl g0))))) \<and>
   decrypt toy_nacl (encodeBase64 (box_seal toy_nacl [0x68] (replicate 24 0) (curve_public toy_nacl (curve_secret toy_nacl (fst (randomBytes 32 (snd (randomBytes 32 g0)))))) (convert_secret toy_nacl (ed_secret toy_nacl (fst (randomBytes 32 g0)))))) (encodeBase64 (replicate 24 0)) (publickey (keys_b64 (fst (sign_keyPair toy_nacl g0)))) (privatekey (keys_b64 (fst (sign_keyPair toy_nacl (snd (sign_keyPair toy_nacl g0)))))) = Inr (decode_ref [0x68]) \<and>
   (\<exists>c n m pkB skA pk'. decodeBase64 (encodeBase64 (box_seal toy_nacl [0x68] (replicate 24 0) (curve_public toy_nacl (curve_secret toy_nacl (fst (randomBytes 32 (snd (randomBytes 32 g0)))))) (convert_secret toy_nacl (ed_secret toy_nacl (fst (randomBytes 32 g0)))))) = Inr c \<and> decodeBase64 (encodeBase64 (replicate 24 0)) = Inr n \<and>
      decodeBase64 (publickey (keys_b64 (fst (sign_keyPair toy_nacl (snd (sign_keyPair toy_nacl g0)))))) = Inr pkB \<and> decodeBase64 (privatekey (keys_b64 (fst (sign_keyPair toy_nacl g0)))) = Inr skA \<and>
      convert_public toy_nacl pkB = Some pk' \<and> c = box_seal toy_nacl m n pk' (convert_secret toy_nacl skA) \<and>
      decode_ref [0x68] = decode_ref m)"
proof -
  have ca: "fst (create toy_nacl None g0) = Inr (keys_b64 (fst (sign_keyPair toy_nacl g0)))" by (simp add: create_None)
  have cb: "fst (create toy_nacl None (snd (create toy_nacl None g0))) = Inr (keys_b64 (fst (sign_keyPair toy_nacl (snd (sign_keyPair toy_nacl g0)))))"
    by (simp add: create_None)
  have pa: "publickey (keys_b64 (fst (sign_keyPair toy_nacl g0))) = encodeBase64 (sign_pk_of_seed toy_nacl (fst (randomBytes 32 g0)))"
    by (simp add: keys_b64_def sign_keyPair_def case_prod_beta)
  have kb: "privatekey (keys_b64 (fst (sign_keyPair toy_nacl (snd (sign_keyPair toy_nacl g0))))) = encodeBase64 (ed_secret toy_nacl (fst (randomBytes 32 (snd (randomBytes 32 g0)))))"
    by (simp add: keys_b64_def sign_keyPair_def case_prod_beta)
  have d: "decrypt toy_nacl (encodeBase64 (box_seal toy_nacl [0x68] (replicate 24 0) (curve_public toy_nacl (curve_secret toy_nacl (fst (randomBytes 32 (snd (randomBytes 32 g0)))))) (convert_secret toy_nacl (ed_secret toy_nacl (fst (randomBytes 32 g0)))))) (encodeBase64 (replicate 24 0)) (publickey (keys_b64 (fst (sign_keyPair toy_nacl g0)))) (privatekey (keys_b64 (fst (sign_keyPair toy_nacl (snd (sign_keyPair toy_nacl g0)))))) = Inr (decode_ref [0x68])"
    unfolding pa kb by (rule decrypt_sealed [OF toy_nacl_laws]) simp_all
  show ?thesis using toy_nacl_laws ca cb d decrypt_integrity [OF toy_nacl_laws ca cb d] by blast
qed

end
