(* ===== verification/Api.thy ===== *)
theory Api
  imports SymCrypto Signer AsymCrypto
begin

text \<open>
  The exported \<^verbatim>\<open>SaltShaker\<close> object as one interface: a call of any of its seven
  functions is a value of \<open>call\<close>, its return value a value of \<open>result\<close>, and
  \<open>api_step\<close> runs one call against the shared entropy source, which is the only
  state the functions share (spec section 5). \<open>api_run\<close> runs a sequence of calls
  in order, as a client interleaving key generation, signing and encryption would.
  \<open>cost\<close> is the number of bytes a call draws from \<^verbatim>\<open>nacl.randomBytes\<close>.
\<close>

datatype call =
    Create "jsstr option"
  | Sign jsstr jsstr
  | Verify jsstr jsstr
  | Encrypt jsstr jsstr jsstr
  | Decrypt jsstr jsstr jsstr jsstr
  | EncryptPSK jsstr jsstr
  | DecryptPSK jsstr jsstr jsstr

datatype result =
    KeysR "keys js"
  | SignedR "jsstr js"
  | TextR "jsstr js"
  | VerifiedR "jsstr option js"
  | EnvelopeR "envelope js"

fun api_step :: "nacl \<Rightarrow> call \<Rightarrow> entropy \<Rightarrow> result \<times> entropy" where
  "api_step lib (Create k) g = (let (r, g') = create lib k g in (KeysR r, g'))"
| "api_step lib (Sign m k) g = (SignedR (sign lib m k), g)"
| "api_step lib (Verify s k) g = (VerifiedR (verify lib s k), g)"
| "api_step lib (Encrypt m pk sk) g = (let (r, g') = encrypt lib m pk sk g in (EnvelopeR r, g'))"
| "api_step lib (Decrypt m n pk sk) g = (TextR (decrypt lib m n pk sk), g)"
| "api_step lib (EncryptPSK m k) g = (let (r, g') = encryptPSK lib m k g in (EnvelopeR r, g'))"
| "api_step lib (DecryptPSK m k n) g = (TextR (decryptPSK lib m k n), g)"

fun api_run :: "nacl \<Rightarrow> call list \<Rightarrow> entropy \<Rightarrow> result list \<times> entropy" where
  "api_run lib [] g = ([], g)"
| "api_run lib (c # cs) g =
     (let (r, g') = api_step lib c g; (rs, g'') = api_run lib cs g' in (r # rs, g''))"

fun cost :: "call \<Rightarrow> nat" where
  "cost (Create k) = (if js_truthy k then 0 else 32)"
| "cost (Encrypt m pk sk) = 24"
| "cost (EncryptPSK m k) = 24"
| "cost (Sign m k) = 0"
| "cost (Verify s k) = 0"
| "cost (Decrypt m n pk sk) = 0"
| "cost (DecryptPSK m k n) = 0"

text \<open>The 24 bytes of the stream from position \<open>p\<close> on.\<close>

definition window :: "entropy \<Rightarrow> nat \<Rightarrow> bytes" where
  "window g p = map (\<lambda>k. pool g (p + k)) [0..<24]"

section \<open>Lemmas\<close>

lemma create_snd: "snd (create lib k g) = g\<lparr>drawn := drawn g + (if js_truthy k then 0 else 32)\<rparr>"
  by (simp add: create_def sign_keyPair_def randomBytes_def split: prod.splits)

lemma encrypt_snd: "snd (encrypt lib m pk sk g) = g\<lparr>drawn := drawn g + 24\<rparr>"
  by (simp add: encrypt_def randomBytes_def)

lemma encryptPSK_snd: "snd (encryptPSK lib m k g) = g\<lparr>drawn := drawn g + 24\<rparr>"
  by (simp add: encryptPSK_def randomBytes_def)

lemma api_step_entropy: "snd (api_step lib c g) = g\<lparr>drawn := drawn g + cost c\<rparr>"
  by (cases c) (simp_all add: case_prod_beta create_snd encrypt_snd encryptPSK_snd)

lemma api_run_Cons_fst_snd:
  "api_run lib (c # cs) g =
     (fst (api_step lib c g) # fst (api_run lib cs (g\<lparr>drawn := drawn g + cost c\<rparr>)),
      snd (api_run lib cs (g\<lparr>drawn := drawn g + cost c\<rparr>)))"
  by (simp add: case_prod_beta api_step_entropy)

lemma length_api_run [simp]: "length (fst (api_run lib cs g)) = length cs"
  by (induction cs arbitrary: g) (simp_all add: api_run_Cons_fst_snd del: api_run.simps(2))

lemma api_run_nth:
  "i < length cs \<Longrightarrow>
   fst (api_run lib cs g) ! i = fst (api_step lib (cs ! i) (g\<lparr>drawn := drawn g + sum_list (map cost (take i cs))\<rparr>))"
proof (induction cs arbitrary: g i)
  case (Cons c cs)
  show ?case
  proof (cases i)
    case 0
    then show ?thesis by (simp add: api_run_Cons_fst_snd del: api_run.simps(2))
  next
    case (Suc j)
    with Cons.prems have "j < length cs" by simp
    with Cons.IH [of j "g\<lparr>drawn := drawn g + cost c\<rparr>"] Suc show ?thesis
      by (simp add: api_run_Cons_fst_snd ac_simps del: api_run.simps(2))
  qed
qed simp

lemma api_step_envelope:
  "fst (api_step lib c g) = EnvelopeR (Inr e) \<Longrightarrow> cost c = 24 \<and> decodeBase64 (nonce e) = Inr (window g (drawn g))"
  by (cases c)
     (auto simp: encrypt_def encryptPSK_def randomBytes_def window_def nacl_box_def nacl_secretbox_def
        bindE_def mapE_def decodeBase64_encodeBase64 split: prod.splits sum.splits)

lemma sum_take_mono:
  "i \<le> j \<Longrightarrow> sum_list (map (f :: 'a \<Rightarrow> nat) (take i xs)) \<le> sum_list (map f (take j xs))"
proof -
  assume "i \<le> j"
  then have "take j xs = take i xs @ take (j - i) (drop i xs)"
    by (metis le_add_diff_inverse take_add)
  then show ?thesis by simp
qed

lemma sum_take_Suc:
  "i < length xs \<Longrightarrow> sum_list (map f (take (Suc i) xs)) = sum_list (map f (take i xs)) + f (xs ! i)"
  by (simp add: take_Suc_conv_app_nth)

lemma randomBytes_window: "fst (randomBytes nonceLength g) = window g (drawn g)"
  by (simp add: randomBytes_def window_def)

lemma encryptPSK_window:
  assumes "nacl_laws lib" "decodeUTF8 m = Inr bs"
  shows "encryptPSK lib m k g =
    (Inr \<lparr>message = encodeBase64 (secretbox_seal lib bs (window g (drawn g)) (psk_key lib k)),
          nonce = encodeBase64 (window g (drawn g))\<rparr>, g\<lparr>drawn := drawn g + 24\<rparr>)"
  using encryptPSK_Inr [OF assms, of k g] by (simp add: randomBytes_window) (simp add: randomBytes_def)

lemma window_drawn [simp]: "window (g\<lparr>drawn := d\<rparr>) p = window g p"
  by (simp add: window_def)

section \<open>Properties of call sequences\<close>

text \<open>
  C18: Entropy accounting: after any sequence of calls the stream itself is unchanged
  and exactly the bytes the calls draw have been used: 32 for each \<^verbatim>\<open>create\<close>
  without a (truthy) key, 24 for each \<^verbatim>\<open>encrypt\<close> and \<^verbatim>\<open>encryptPSK\<close>, none
  for the others, whether or not the calls throw.
\<close>

theorem api_run_entropy: "snd (api_run lib cs g) = g\<lparr>drawn := drawn g + sum_list (map cost cs)\<rparr>"
  by (induction cs arbitrary: g) (simp_all add: api_run_Cons_fst_snd del: api_run.simps(2))

text \<open>
  C12: Nonces never share entropy: in any sequence of calls, the nonces of two
  envelopes returned by different calls are the base64 of two windows of the stream
  that do not overlap, both inside the part of the stream the sequence draws. So two
  envelopes can only share a nonce if the random source repeats itself.
\<close>

theorem run_nonces_disjoint:
  assumes "i < j" "j < length cs"
    and "fst (api_run lib cs g) ! i = EnvelopeR (Inr e1)" "fst (api_run lib cs g) ! j = EnvelopeR (Inr e2)"
  shows "\<exists>p q. drawn g \<le> p \<and> p + 24 \<le> q \<and> q + 24 \<le> drawn g + sum_list (map cost cs) \<and>
           decodeBase64 (nonce e1) = Inr (window g p) \<and> decodeBase64 (nonce e2) = Inr (window g q)"
proof -
  define S where "S k = sum_list (map cost (take k cs))" for k
  have i: "i < length cs" using assms(1,2) by simp
  from assms(3) api_run_nth [OF i] have "cost (cs ! i) = 24 \<and> decodeBase64 (nonce e1) = Inr (window g (drawn g + S i))"
    using api_step_envelope [of lib "cs ! i" "g\<lparr>drawn := drawn g + S i\<rparr>" e1] by (simp add: S_def)
  moreover from assms(4) api_run_nth [OF assms(2)]
  have "cost (cs ! j) = 24 \<and> decodeBase64 (nonce e2) = Inr (window g (drawn g + S j))"
    using api_step_envelope [of lib "cs ! j" "g\<lparr>drawn := drawn g + S j\<rparr>" e2] by (simp add: S_def)
  moreover have "S i + cost (cs ! i) \<le> S j"
    using sum_take_Suc [OF i, of cost] sum_take_mono [of "Suc i" j cost cs] assms(1) by (simp add: S_def)
  moreover have "S j + cost (cs ! j) \<le> sum_list (map cost cs)"
    using sum_take_Suc [OF assms(2), of cost] sum_take_mono [of "Suc j" "length cs" cost cs] assms(2)
    by (simp add: S_def)
  ultimately show ?thesis by (intro exI [of _ "drawn g + S i"] exI [of _ "drawn g + S j"]) simp
qed

theorem run_nonces_disjoint_witness:
  "0 < (1::nat) \<and> 1 < length [EncryptPSK [] [], EncryptPSK [] []] \<and>
   fst (api_run toy_nacl [EncryptPSK [] [], EncryptPSK [] []] g0) ! 0 =
     EnvelopeR (Inr \<lparr>message = encodeBase64 (secretbox_seal toy_nacl [] (window g0 0) (psk_key toy_nacl [])),
                      nonce = encodeBase64 (window g0 0)\<rparr>) \<and>
   fst (api_run toy_nacl [EncryptPSK [] [], EncryptPSK [] []] g0) ! 1 =
     EnvelopeR (Inr \<lparr>message = encodeBase64 (secretbox_seal toy_nacl [] (window g0 24) (psk_key toy_nacl [])),
                      nonce = encodeBase64 (window g0 24)\<rparr>) \<and>
   (\<exists>p q. drawn g0 \<le> p \<and> p + 24 \<le> q \<and>
      q + 24 \<le> drawn g0 + sum_list (map cost [EncryptPSK [] [], EncryptPSK [] []]) \<and>
      decodeBase64 (encodeBase64 (window g0 0)) = Inr (window g0 p) \<and>
      decodeBase64 (encodeBase64 (window g0 24)) = Inr (window g0 q))"
proof -
  have e: "encryptPSK toy_nacl [] [] g =
    (Inr \<lparr>message = encodeBase64 (secretbox_seal toy_nacl [] (window g (drawn g)) (psk_key toy_nacl [])),
          nonce = encodeBase64 (window g (drawn g))\<rparr>, g\<lparr>drawn := drawn g + 24\<rparr>)" for g
    by (rule encryptPSK_window [OF toy_nacl_laws]) simp
  have d: "drawn g0 = 0" by (simp add: g0_def)
  have r0: "fst (api_run toy_nacl [EncryptPSK [] [], EncryptPSK [] []] g0) ! 0 =
     EnvelopeR (Inr \<lparr>message = encodeBase64 (secretbox_seal toy_nacl [] (window g0 0) (psk_key toy_nacl [])),
                      nonce = encodeBase64 (window g0 0)\<rparr>)"
    by (simp add: api_run_Cons_fst_snd e d del: api_run.simps(2))
  have r1: "fst (api_run toy_nacl [EncryptPSK [] [], EncryptPSK [] []] g0) ! 1 =
     EnvelopeR (Inr \<lparr>message = encodeBase64 (secretbox_seal toy_nacl [] (window g0 24) (psk_key toy_nacl [])),
                      nonce = encodeBase64 (window g0 24)\<rparr>)"
    by (simp add: api_run_Cons_fst_snd e d del: api_run.simps(2))
  have l: "0 < (1::nat)" "1 < length [EncryptPSK [] [], EncryptPSK [] []]" by simp_all
  show ?thesis using l r0 r1 run_nonces_disjoint [OF l r0 r1] by simp
qed

text \<open>
  C19: Apart from the entropy they draw, the functions are stateless (spec section 5):
  a call that draws nothing (\<^verbatim>\<open>sign\<close>, \<^verbatim>\<open>verify\<close>, \<^verbatim>\<open>decrypt\<close>,
  \<^verbatim>\<open>decryptPSK\<close>, \<^verbatim>\<open>create\<close> with a key) leaves the entropy source as it was and
  returns the same result in every state of it.
\<close>

theorem api_step_pure:
  "cost c = 0 \<Longrightarrow> snd (api_step lib c g) = g \<and> fst (api_step lib c g) = fst (api_step lib c g')"
  by (cases c) (simp_all add: case_prod_beta create_def split: if_splits)

theorem api_step_pure_witness:
  "cost (Create (Some (js_lit ''AA==''))) = 0 \<and>
   snd (api_step toy_nacl (Create (Some (js_lit ''AA==''))) g0) = g0 \<and>
   fst (api_step toy_nacl (Create (Some (js_lit ''AA==''))) g0) =
     fst (api_step toy_nacl (Create (Some (js_lit ''AA==''))) (g0\<lparr>drawn := 5\<rparr>))"
proof -
  have c: "cost (Create (Some (js_lit ''AA==''))) = 0" by (simp add: js_truthy_def js_lit_def)
  show ?thesis using c api_step_pure [OF c] by simp
qed

end
