(* ===== verification/Traces.thy ===== *)
theory Traces
  imports Api
begin

text \<open>
  Histories of API calls as an inductive relation, in the style of protocol traces:
  \<open>trace lib g0 tr g\<close> holds when the calls of \<open>tr\<close> (newest first, each with the
  result it returned) can be made one after the other from the entropy state
  \<open>g0\<close>, leaving \<open>g\<close>. Invariants of every reachable trace are proved by rule
  induction: what an envelope or a signed message recorded anywhere in a trace
  opens to, whatever other calls were interleaved with it.
\<close>

inductive trace :: "nacl \<Rightarrow> entropy \<Rightarrow> (call \<times> result) list \<Rightarrow> entropy \<Rightarrow> bool"
  for lib :: nacl and g0 :: entropy where
  Nil: "trace lib g0 [] g0"
| Step: "trace lib g0 tr g \<Longrightarrow> api_step lib c g = (r, g') \<Longrightarrow> trace lib g0 ((c, r) # tr) g'"

inductive_cases trace_ConsE: "trace lib g0 ((c, r) # tr) g'"

section \<open>Lemmas\<close>

lemma trace_entry: "trace lib g0 tr g \<Longrightarrow> (c, r) \<in> set tr \<Longrightarrow> \<exists>g1. fst (api_step lib c g1) = r"
  by (induction rule: trace.induct) (auto, metis fst_conv)

lemma decryptPSK_window:
  assumes "nacl_laws lib" "decodeUTF8 m = Inr bs"
  shows "decryptPSK lib (encodeBase64 (secretbox_seal lib bs (window g (drawn g)) (psk_key lib k))) k
           (encodeBase64 (window g (drawn g))) = Inr (filter (\<lambda>u. \<not> is_surrogate u) m)"
  using decryptPSK_sealed [OF assms(1), of "window g (drawn g)" bs k k]
  by (simp add: window_def decoder_def decoder_loop_ref decode_ref_decodeUTF8 [OF assms(2)])

section \<open>Invariants of traces\<close>

text \<open>
  C10: Invariant of every trace: for a library that keeps the contract, each envelope
  that \<^verbatim>\<open>encryptPSK(m, k)\<close> returned in the trace, whatever calls came before or
  after it, is decrypted by \<^verbatim>\<open>decryptPSK\<close> with \<open>k\<close> to \<open>m\<close> without its surrogate
  code units.
\<close>

theorem trace_psk_open:
  assumes "nacl_laws lib" "trace lib g0 tr g" "(EncryptPSK m k, EnvelopeR (Inr e)) \<in> set tr"
  shows "decryptPSK lib (message e) k (nonce e) = Inr (filter (\<lambda>u. \<not> is_surrogate u) m)"
proof -
  from trace_entry [OF assms(2,3)] obtain g1 where "fst (api_step lib (EncryptPSK m k) g1) = EnvelopeR (Inr e)"
    by blast
  then have enc: "fst (encryptPSK lib m k g1) = Inr e" by (simp add: case_prod_beta)
  then obtain bs where bs: "decodeUTF8 m = Inr bs"
    by (cases "decodeUTF8 m") (simp_all add: encryptPSK_def case_prod_beta)
  from enc encryptPSK_window [OF assms(1) bs, of k g1] have
    "e = \<lparr>message = encodeBase64 (secretbox_seal lib bs (window g1 (drawn g1)) (psk_key lib k)),
          nonce = encodeBase64 (window g1 (drawn g1))\<rparr>" by simp
  then show ?thesis by (simp add: decryptPSK_window [OF assms(1) bs])
qed

text \<open>
  C11: Invariant of every trace: for a library that keeps the contract, if the trace
  generated a key pair with \<^verbatim>\<open>create()\<close> and signed a message with its private
  key, then \<^verbatim>\<open>verify\<close> of that signed message with the pair's public key returns the
  message without its surrogate code units.
\<close>

theorem trace_signed_verify:
  assumes "nacl_laws lib" "trace lib g0 tr g"
    and "(Create None, KeysR (Inr ks)) \<in> set tr" "(Sign m (privatekey ks), SignedR (Inr s)) \<in> set tr"
  shows "verify lib s (publickey ks) = Inr (Some (filter (\<lambda>u. \<not> is_surrogate u) m))"
proof -
  from trace_entry [OF assms(2,3)] obtain g1 where "fst (api_step lib (Create None) g1) = KeysR (Inr ks)"
    by blast
  then have "fst (create lib None g1) = Inr ks" by (simp add: case_prod_beta)
  from generated_keys [OF this] obtain seed where l: "length seed = 32"
    and pub: "publickey ks = encodeBase64 (sign_pk_of_seed lib seed)"
    and priv: "privatekey ks = encodeBase64 (ed_secret lib seed)" by blast
  from trace_entry [OF assms(2,4)] have "sign lib m (privatekey ks) = Inr s" by auto
  then obtain bs sk where bs: "decodeUTF8 m = Inr bs" and "decodeBase64 (privatekey ks) = Inr sk"
    and s: "s = encodeBase64 (sign_detached lib bs sk @ bs)" by (rule sign_InrE)
  with priv have "sk = ed_secret lib seed" by (simp add: decodeBase64_encodeBase64)
  with s pub assms(1) l show ?thesis
    by (simp add: verify_seed sign_pk_length decode_ref_decodeUTF8 [OF bs])
qed

theorem trace_psk_open_witness:
  "nacl_laws toy_nacl \<and>
   trace toy_nacl g0
     [(EncryptPSK (js_lit ''hi'') [], EnvelopeR (Inr
        \<lparr>message = encodeBase64 (secretbox_seal toy_nacl (js_bytes ''hi'') (window g0 0) (psk_key toy_nacl [])),
         nonce = encodeBase64 (window g0 0)\<rparr>))] (g0\<lparr>drawn := 24\<rparr>) \<and>
   (EncryptPSK (js_lit ''hi'') [], EnvelopeR (Inr
        \<lparr>message = encodeBase64 (secretbox_seal toy_nacl (js_bytes ''hi'') (window g0 0) (psk_key toy_nacl [])),
         nonce = encodeBase64 (window g0 0)\<rparr>)) \<in>
     set [(EncryptPSK (js_lit ''hi'') [], EnvelopeR (Inr
        \<lparr>message = encodeBase64 (secretbox_seal toy_nacl (js_bytes ''hi'') (window g0 0) (psk_key toy_nacl [])),
         nonce = encodeBase64 (window g0 0)\<rparr>))] \<and>
   decryptPSK toy_nacl (encodeBase64 (secretbox_seal toy_nacl (js_bytes ''hi'') (window g0 0) (psk_key toy_nacl [])))
     [] (encodeBase64 (window g0 0)) = Inr (filter (\<lambda>u. \<not> is_surrogate u) (js_lit ''hi''))"
proof -
  have u: "decodeUTF8 (js_lit ''hi'') = Inr (js_bytes ''hi'')"
    by (simp add: js_lit_def js_bytes_def is_low_surrogate_def is_high_surrogate_def utf8_bytes_def)
  have d: "drawn g0 = 0" by (simp add: g0_def)
  have t: "trace toy_nacl g0
     [(EncryptPSK (js_lit ''hi'') [], EnvelopeR (Inr
        \<lparr>message = encodeBase64 (secretbox_seal toy_nacl (js_bytes ''hi'') (window g0 0) (psk_key toy_nacl [])),
         nonce = encodeBase64 (window g0 0)\<rparr>))] (g0\<lparr>drawn := 24\<rparr>)"
    by (rule trace.Step [OF trace.Nil]) (simp add: encryptPSK_window [OF toy_nacl_laws u] d)
  show ?thesis using toy_nacl_laws t trace_psk_open [OF toy_nacl_laws t, of "js_lit ''hi''" "[]"] by simp
qed

theorem trace_signed_verify_witness:
  "nacl_laws toy_nacl \<and>
   trace toy_nacl g0
     [(Sign (js_lit ''hi'') (privatekey (keys_b64 (fst (sign_keyPair toy_nacl g0)))),
       SignedR (Inr (encodeBase64 (sign_detached toy_nacl (js_bytes ''hi'') (secretKey (fst (sign_keyPair toy_nacl g0)))
                                   @ js_bytes ''hi'')))),
      (Create None, KeysR (Inr (keys_b64 (fst (sign_keyPair toy_nacl g0)))))] (snd (sign_keyPair toy_nacl g0)) \<and>
   verify toy_nacl (encodeBase64 (sign_detached toy_nacl (js_bytes ''hi'') (secretKey (fst (sign_keyPair toy_nacl g0)))
                                   @ js_bytes ''hi''))
     (publickey (keys_b64 (fst (sign_keyPair toy_nacl g0)))) = Inr (Some (filter (\<lambda>u. \<not> is_surrogate u) (js_lit ''hi'')))"
proof -
  have u: "decodeUTF8 (js_lit ''hi'') = Inr (js_bytes ''hi'')"
    by (simp add: js_lit_def js_bytes_def is_low_surrogate_def is_high_surrogate_def utf8_bytes_def)
  have l: "length (secretKey (fst (sign_keyPair toy_nacl g0))) = 64"
    by (simp add: sign_keyPair_def randomBytes_def ed_secret_length [OF toy_nacl_laws])
  have t1: "trace toy_nacl g0 [(Create None, KeysR (Inr (keys_b64 (fst (sign_keyPair toy_nacl g0)))))]
      (snd (sign_keyPair toy_nacl g0))"
    by (rule trace.Step [OF trace.Nil]) (simp add: create_None case_prod_beta)
  have t: "trace toy_nacl g0
     [(Sign (js_lit ''hi'') (privatekey (keys_b64 (fst (sign_keyPair toy_nacl g0)))),
       SignedR (Inr (encodeBase64 (sign_detached toy_nacl (js_bytes ''hi'') (secretKey (fst (sign_keyPair toy_nacl g0)))
                                   @ js_bytes ''hi'')))),
      (Create None, KeysR (Inr (keys_b64 (fst (sign_keyPair toy_nacl g0)))))] (snd (sign_keyPair toy_nacl g0))"
    by (rule trace.Step [OF t1])
       (simp add: sign_def u keys_b64_def decodeBase64_encodeBase64 nacl_sign_def l del: decodeUTF8.simps)
  have c: "(Create None, KeysR (Inr (keys_b64 (fst (sign_keyPair toy_nacl g0))))) \<in> set
     [(Sign (js_lit ''hi'') (privatekey (keys_b64 (fst (sign_keyPair toy_nacl g0)))),
       SignedR (Inr (encodeBase64 (sign_detached toy_nacl (js_bytes ''hi'') (secretKey (fst (sign_keyPair toy_nacl g0)))
                                   @ js_bytes ''hi'')))),
      (Create None, KeysR (Inr (keys_b64 (fst (sign_keyPair toy_nacl g0)))))]" by simp
  have s: "(Sign (js_lit ''hi'') (privatekey (keys_b64 (fst (sign_keyPair toy_nacl g0)))),
       SignedR (Inr (encodeBase64 (sign_detached toy_nacl (js_bytes ''hi'') (secretKey (fst (sign_keyPair toy_nacl g0)))
                                   @ js_bytes ''hi'')))) \<in> set
     [(Sign (js_lit ''hi'') (privatekey (keys_b64 (fst (sign_keyPair toy_nacl g0)))),
       SignedR (Inr (encodeBase64 (sign_detached toy_nacl (js_bytes ''hi'') (secretKey (fst (sign_keyPair toy_nacl g0)))
                                   @ js_bytes ''hi'')))),
      (Create None, KeysR (Inr (keys_b64 (fst (sign_keyPair toy_nacl g0)))))]" by simp
  show ?thesis using toy_nacl_laws t trace_signed_verify [OF toy_nacl_laws t c s] by simp
qed

end
