(* ===== verification/DecoderMachine.thy ===== *)
theory DecoderMachine
  imports Utf8 "HOL-Library.While_Combinator"
begin

text \<open>
  A further view of \<^verbatim>\<open>_decoder\<close> (src/saltshaker.js, lines 45--78). First the
  \<^verbatim>\<open>while\<close> loop written with the library's \<open>while_option\<close>, whose result is
  \<open>None\<close> exactly when the loop runs forever: the loop state is the pair of the
  index \<^verbatim>\<open>i\<close> and the string \<^verbatim>\<open>out\<close>, the condition is \<^verbatim>\<open>i < len\<close> and the
  body is one pass of the \<^verbatim>\<open>switch\<close>. Its termination is proved, not assumed.
\<close>

section \<open>The while loop\<close>

definition decoder_cond :: "bytes \<Rightarrow> nat \<times> jsstr \<Rightarrow> bool" where
  "decoder_cond arr = (\<lambda>(i, out). i < length arr)"

definition decoder_body :: "bytes \<Rightarrow> nat \<times> jsstr \<Rightarrow> nat \<times> jsstr" where
  "decoder_body arr = (\<lambda>(i, out). case decoder_step arr i of (i', s) \<Rightarrow> (i', out @ s))"

definition decoder_while :: "bytes \<Rightarrow> jsstr option" where
  "decoder_while arr = map_option snd (while_option (decoder_cond arr) (decoder_body arr) (0, []))"

section \<open>Lemmas\<close>

lemma decoder_body_step:
  "decoder_body arr (i, out) = (fst (decoder_step arr i), out @ snd (decoder_step arr i))"
  by (simp add: decoder_body_def split: prod.splits)

lemma decoder_loop_unfold:
  "i < length arr \<Longrightarrow>
   decoder_loop arr i out = decoder_loop arr (fst (decoder_step arr i)) (out @ snd (decoder_step arr i))"
  by (subst decoder_loop.simps) (simp split: prod.splits)

lemma decoder_while_invariant:
  assumes "while_option (decoder_cond arr) (decoder_body arr) (0, []) = Some t"
  shows "decoder_loop arr (fst t) (snd t) = decoder_loop arr 0 []"
proof -
  have "decoder_loop arr (fst (decoder_body arr s)) (snd (decoder_body arr s)) = decoder_loop arr (fst s) (snd s)"
    if "decoder_cond arr s" for s
    using that by (cases s) (simp add: decoder_cond_def decoder_body_step decoder_loop_unfold)
  with assms show ?thesis
    by (rule_tac while_option_rule [where P = "\<lambda>s. decoder_loop arr (fst s) (snd s) = decoder_loop arr 0 []"])
       auto
qed

section \<open>Properties of the loop\<close>

text \<open>
  C13: Termination of the \<^verbatim>\<open>while\<close> loop of \<^verbatim>\<open>_decoder\<close>: on every byte array the
  loop stops (\<open>while_option\<close> returns \<open>Some\<close>), each pass of the \<^verbatim>\<open>switch\<close>
  moving the index forward, and the string it has built is the one the recursive
  model \<open>decoder_loop\<close> returns.
\<close>

theorem decoder_while_terminates:
  "\<exists>t. while_option (decoder_cond arr) (decoder_body arr) (0, []) = Some t \<and>
       decoder_while arr = Some (decoder_loop arr 0 [])"
proof -
  have "\<exists>t. while_option (decoder_cond arr) (decoder_body arr) (0, []) = Some t"
  proof (rule measure_while_option_Some [where P = "\<lambda>_. True" and f = "\<lambda>(i, out). length arr - i"])
    fix s :: "nat \<times> jsstr"
    assume "decoder_cond arr s"
    then show "True \<and> (\<lambda>(i, out). length arr - i) (decoder_body arr s) < (\<lambda>(i, out). length arr - i) s"
      using decoder_step_advances [of "fst s" arr]
      by (cases s) (simp add: decoder_cond_def decoder_body_step diff_less_mono2)
  qed simp
  then obtain t where t: "while_option (decoder_cond arr) (decoder_body arr) (0, []) = Some t" by blast
  have "\<not> decoder_cond arr t" by (rule while_option_stop [OF t])
  then have "decoder_loop arr (fst t) (snd t) = snd t"
    by (cases t) (simp add: decoder_cond_def decoder_loop.simps)
  with decoder_while_invariant [OF t] t show ?thesis by (simp add: decoder_while_def)
qed

end
