(* ===== verification/Spec2Isabelle.thy ===== *)
theory Spec2Isabelle
  imports Traces DecoderMachine
begin

text \<open>
  \<^bold>\<open>SaltShaker in Isabelle/HOL.\<close>
  SaltShaker (src/saltshaker.js) wraps tweetnacl: it creates Ed25519 signing key
  pairs, signs and verifies attached signatures, encrypts with \<^verbatim>\<open>nacl.box\<close> under
  keys converted from the signing keys by ed2curve, and encrypts with
  \<^verbatim>\<open>nacl.secretbox\<close> under a key derived from a passphrase by MD5. Every value that
  crosses the API is a base64 string; text is turned into bytes by
  \<^verbatim>\<open>nacl.util.decodeUTF8\<close> and back by the source's own \<^verbatim>\<open>_decoder\<close>.

  \<^bold>\<open>Theories.\<close>
  \<^item> \<open>Prelude\<close>: JavaScript values (bytes as \<open>8 word\<close>, strings as lists of \<open>16 word\<close>
    code units), the exceptions a call can throw (\<open>js_error\<close>), the result type
    \<open>'a js = js_error + 'a\<close> and its sequencing \<open>bindE\<close> (JavaScript's left-to-right
    evaluation of arguments), and the bit-to-arithmetic rules the codecs share.
  \<^item> \<open>Utf8\<close>: \<^verbatim>\<open>nacl.util.decodeUTF8\<close> (modelled from the spec: UTF-8 of the code
    points, \<^verbatim>\<open>URIError\<close> on a lone surrogate) and \<^verbatim>\<open>_decoder\<close> (lines 45--78) as the
    source writes it: \<open>decoder_step\<close> is one pass of the \<^verbatim>\<open>switch\<close>, \<open>decoder_loop\<close>
    the \<^verbatim>\<open>while\<close> loop (terminating by the measure \<open>length arr - i\<close>), \<open>decoder\<close>
    the function, which throws on \<^verbatim>\<open>null\<close>. \<open>decode_ref\<close> is a structural reference
    decoder over byte classes; the loop is proved equal to it and the round trip is
    proved of it.
  \<^item> \<open>Base64\<close>: \<^verbatim>\<open>nacl.util.encodeBase64/decodeBase64\<close> (modelled from the
    spec and the library: standard alphabet, padding, the validation of the length
    and of the characters, and \<^verbatim>\<open>atob\<close>'s discarding of the unused bits of the
    last group). Lemmas: the round trip \<open>decodeBase64_encodeBase64\<close>, the lengths,
    and \<open>decodeBase64_second_encoding\<close>, a second text for the same bytes.
  \<^item> \<open>Legacy16\<close>: \<^verbatim>\<open>_encoder\<close> (lines 83--93) as its \<^verbatim>\<open>for\<close> loop over a
    \<^verbatim>\<open>Uint16Array\<close> (\<open>encoder_fill\<close>, measure \<open>length str - i\<close>) and the conversion
    \<^verbatim>\<open>new Uint8Array(bufView)\<close> (\<open>uint8_of_uint16\<close>, \<open>ucast\<close> to \<open>8 word\<close>).
  \<^item> \<open>Nacl\<close>: the trusted primitives as the record \<open>nacl\<close> of functions and the
    contract \<open>nacl_laws\<close> (spec section 6: lengths, signature correctness and
    binding, ed2curve's key agreement, box and secret-box correctness, box and
    secret-box integrity, secret-box key binding, MD5 as 32 hex digits); tweetnacl's API wrappers with
    their argument checks and \<^verbatim>\<open>null\<close> results (\<open>nacl_sign\<close>, \<open>nacl_sign_open\<close>,
    \<open>nacl_box\<close>, \<open>nacl_box_open\<close>, \<open>nacl_secretbox\<close>, \<open>nacl_secretbox_open\<close>,
    \<open>sign_keyPair\<close>, \<open>sign_keyPair_fromSecretKey\<close>); the entropy source as the
    explicit state \<open>entropy\<close> (an infinite byte stream and the count of bytes
    drawn) that \<open>randomBytes\<close> advances. \<open>toy_nacl\<close> is a library that provably
    keeps the contract (\<open>toy_nacl_laws\<close>) and \<open>g0\<close> an entropy state; the witnesses
    run the model on them.
  \<^item> \<open>SymCrypto\<close>: \<^verbatim>\<open>_md5\<close>, the key \<^verbatim>\<open>_encoder(_md5(key))\<close> (\<open>psk_key\<close>),
    \<^verbatim>\<open>encryptPSK\<close> and \<^verbatim>\<open>decryptPSK\<close> (lines 36--39, 148--165).
  \<^item> \<open>KeyManager\<close>: \<^verbatim>\<open>create\<close> (lines 100--111), with JavaScript truthiness of
    its optional argument (\<open>js_truthy\<close>).
  \<^item> \<open>Signer\<close>: \<^verbatim>\<open>sign\<close> and \<^verbatim>\<open>verify\<close> (lines 116--127).
  \<^item> \<open>AsymCrypto\<close>: \<^verbatim>\<open>encrypt\<close> and \<^verbatim>\<open>decrypt\<close> (lines 132--146), with
    ed2curve's conversions.
  \<^item> \<open>DecoderMachine\<close>: the \<^verbatim>\<open>while\<close> loop of \<^verbatim>\<open>_decoder\<close> once more, written
    with \<open>while_option\<close> (\<open>decoder_cond\<close> is \<^verbatim>\<open>i < len\<close>, \<open>decoder_body\<close> one
    pass of the \<^verbatim>\<open>switch\<close>), with its termination proved by the measure
    \<open>len - i\<close>, and its result proved to be that of \<open>decoder_loop\<close>.
  \<^item> \<open>Api\<close>: the seven exported functions as one interface over the entropy source
    they share (spec section 5): \<open>call\<close> and \<open>result\<close>, the step \<open>api_step\<close>, runs
    of call sequences \<open>api_run\<close>, and the bytes each call draws (\<open>cost\<close>).
  \<^item> \<open>Traces\<close>: the inductive relation \<open>trace\<close> of reachable histories, newest call
    first, in the style of protocol traces, and invariants proved by rule induction
    over it.
  \<^item> This theory: the interplay of the decoder with the encoders of the other
    components, and the order in which the API functions report errors.

  \<^bold>\<open>Correspondence.\<close> Every API function is a HOL function of the library
  \<open>lib\<close>, its string arguments (\<open>jsstr\<close>) and, where it calls
  \<^verbatim>\<open>nacl.randomBytes\<close>, the entropy state, which it returns advanced. A throw is
  \<open>Inl\<close> of the exception (\<open>js_error\<close>), a \<^verbatim>\<open>null\<close> result is \<open>None\<close>. Calls are
  sequenced by \<open>bindE\<close> in JavaScript's left-to-right order of evaluation, so the
  first argument that throws decides the error. Both encrypt functions draw the
  nonce before evaluating anything else, as the source does: a call that throws has
  still used 24 bytes of entropy.

  \<^bold>\<open>What is proved.\<close> The three round trips of spec section 8 (PSK, box,
  signature) and the key round trip of \<^verbatim>\<open>create\<close>, for every library that keeps
  the contract and every message without surrogate code units; the equivalence of
  \<^verbatim>\<open>_decoder\<close>'s loop with a structural decoder; key mismatch and wrong
  passphrase; the 32-byte key that \<^verbatim>\<open>_encoder(_md5(key))\<close> gives every
  passphrase; the determinism of restoring a key pair; integrity of accepted PSK and box ciphertexts (what \<^verbatim>\<open>decrypt\<close>
  accepts from a generated pair is exactly what \<^verbatim>\<open>encrypt\<close> computes); the entropy each function
  draws and the freshness of nonces relative to the entropy stream; every error
  branch of the API functions (bad key and nonce sizes, invalid base64, unconvertible
  keys, failed opening). Several theorems record where the code departs from the
  spec: \<^verbatim>\<open>_encoder\<close> gives one byte per code unit (the low byte), not the
  spec's two, four-byte UTF-8 leads are dropped by \<^verbatim>\<open>_decoder\<close>, failed decryption throws the \<^verbatim>\<open>TypeError\<close> of
  \<^verbatim>\<open>_decoder(null)\<close> rather than an authentication error, an unconvertible key
  gives \<^verbatim>\<open>TypeError('unexpected type')\<close>, \<^verbatim>\<open>create("")\<close> generates a fresh
  key, and text decoded from the three-byte form of a surrogate cannot be encrypted or signed
  again.

  \<^bold>\<open>Termination.\<close> The only loops of the source are those of \<^verbatim>\<open>_decoder\<close> and
  \<^verbatim>\<open>_encoder\<close>; both advance an index towards the length of their input, and
  are \<open>function\<close>s whose termination is proved by that measure. The decoder's loop
  is also written with \<open>while_option\<close>, which returns \<open>None\<close> on divergence, and
  is proved to return \<open>Some\<close> on every input. No fuel is needed.

  \<^bold>\<open>Sequences of calls.\<close> Over any sequence of calls the stream is left unchanged
  and exactly 32 bytes per generated key pair and 24 per encryption are drawn; the
  nonces of any two envelopes come from disjoint windows of the stream; a call that
  draws no entropy returns the same result in every state; in every reachable trace
  each PSK envelope opens under its passphrase and each message signed with a
  generated key verifies under its public key. Errors
  follow JavaScript's left-to-right evaluation: a bad message argument is reported
  before any bad key, passphrase or nonce.

  \<^bold>\<open>Not modelled.\<close> The mathematics of Ed25519, X25519, XSalsa20-Poly1305, the
  ed2curve conversion and MD5: the spec excludes them as a trusted collaborator
  (sections 1 and 6) and none of their code is in the repository, so the contract
  \<open>nacl_laws\<close> stands for them, with integrity idealised as equality of ciphertexts
  (as protocol models treat encryption as a free constructor); the attacker-facing
  properties that need unforgeability or ciphertext indistinguishability are out of
  reach of a functional model. The quality of the random source (the entropy stream
  is arbitrary, so freshness is stated relative to it). The module wrapper that
  exports \<^verbatim>\<open>SaltShaker\<close> (lines 35 and 166), which has no behaviour of its own. With
  these exceptions every function of src/saltshaker.js is modelled.
\<close>

section \<open>The codecs across components\<close>

text \<open>
  C22: The text \<^verbatim>\<open>_decoder\<close> returns cannot always be sent again: the three-byte
  encoding of a surrogate (lead \<open>0xED\<close>, second byte \<open>0xA0\<close>--\<open>0xBF\<close>), which a
  peer's encoder may produce, decodes to a lone surrogate code unit, and then
  \<^verbatim>\<open>encryptPSK\<close>, \<^verbatim>\<open>encrypt\<close> and \<^verbatim>\<open>sign\<close> all throw \<^verbatim>\<open>URIError\<close> on it.
\<close>

theorem decoded_surrogate_rejected:
  assumes "0xA0 \<le> unat b2" "unat b2 < 0xC0" "0x80 \<le> unat b3" "unat b3 < 0xC0"
  shows "\<exists>u. decoder (Some [0xED, b2, b3]) = Inr [u] \<and> is_surrogate u \<and>
           fst (encryptPSK lib [u] key g) = Inl MalformedURI \<and>
           fst (encrypt lib [u] pubkey privkey g) = Inl MalformedURI \<and>
           sign lib [u] privkey = Inl MalformedURI"
proof -
  define x where "x = 13 * 4096 + (unat b2 mod 64) * 64 + unat b3 mod 64"
  have d: "decoder (Some [0xED, b2, b3]) = Inr [word_of_nat x]"
    by (simp add: decoder_def decoder_loop_ref byte_class_def cont_def x_def)
  have "unat b2 mod 64 = unat b2 - 128" "unat b3 mod 64 = unat b3 - 128"
    using assms by (simp_all add: mod_if)
  with assms have r: "0xD800 \<le> x" "x \<le> 0xDFFF" by (simp_all add: x_def)
  then have s: "is_surrogate (word_of_nat x)" by (simp add: is_surrogate_def unat_of_nat)
  have e: "decodeUTF8 [word_of_nat x] = Inl MalformedURI" by (rule decodeUTF8_lone_surrogate [OF s])
  show ?thesis
    by (intro exI [of _ "word_of_nat x"])
       (simp add: d s e encryptPSK_def encrypt_def sign_def case_prod_beta del: decodeUTF8.simps)
qed

theorem decoded_surrogate_rejected_witness:
  "0xA0 \<le> unat (0xA0::byte) \<and> unat (0xA0::byte) < 0xC0 \<and> 0x80 \<le> unat (0x80::byte) \<and> unat (0x80::byte) < 0xC0 \<and>
   (\<exists>u. decoder (Some [0xED, 0xA0, 0x80]) = Inr [u] \<and> is_surrogate u \<and>
      fst (encryptPSK toy_nacl [u] [] g0) = Inl MalformedURI \<and>
      fst (encrypt toy_nacl [u] [] [] g0) = Inl MalformedURI \<and>
      sign toy_nacl [u] [] = Inl MalformedURI)"
proof -
  have a: "0xA0 \<le> unat (0xA0::byte)" "unat (0xA0::byte) < 0xC0" "0x80 \<le> unat (0x80::byte)"
    "unat (0x80::byte) < 0xC0" by simp_all
  show ?thesis using a decoded_surrogate_rejected [OF a] by blast
qed

section \<open>Order of evaluation\<close>

text \<open>
  C17: Errors are reported in the order JavaScript evaluates arguments: when the
  message argument is bad, that error is thrown whatever the keys, passphrase or
  nonce are, even if they are malformed too. A message with a lone surrogate makes
  \<^verbatim>\<open>encrypt\<close>, \<^verbatim>\<open>encryptPSK\<close> and \<^verbatim>\<open>sign\<close> throw its \<^verbatim>\<open>URIError\<close>; a message
  field that is not base64 makes \<^verbatim>\<open>decrypt\<close>, \<^verbatim>\<open>decryptPSK\<close> and \<^verbatim>\<open>verify\<close>
  throw \<^verbatim>\<open>TypeError('invalid encoding')\<close> for it.
\<close>

theorem message_errors_first:
  "decodeUTF8 msg = Inl e \<Longrightarrow> decodeBase64 ct = Inl e' \<Longrightarrow>
   fst (encrypt lib msg pubkey privkey g) = Inl e \<and> fst (encryptPSK lib msg key g) = Inl e \<and>
   sign lib msg privkey = Inl e \<and>
   decrypt lib ct nonce64 pubkey privkey = Inl e' \<and> decryptPSK lib ct key nonce64 = Inl e' \<and>
   verify lib ct pubkey = Inl e'"
  by (simp add: encrypt_def encryptPSK_def sign_def decrypt_def decryptPSK_def verify_def case_prod_beta
      del: decodeUTF8.simps)

theorem message_errors_first_witness:
  "decodeUTF8 [0xD800] = Inl MalformedURI \<and> decodeBase64 (js_lit ''abc'') = Inl InvalidEncoding \<and>
   fst (encrypt toy_nacl [0xD800] (js_lit ''!'') (js_lit ''!'') g0) = Inl MalformedURI \<and>
   fst (encryptPSK toy_nacl [0xD800] [] g0) = Inl MalformedURI \<and>
   sign toy_nacl [0xD800] (js_lit ''!'') = Inl MalformedURI \<and>
   decrypt toy_nacl (js_lit ''abc'') (js_lit ''!'') (js_lit ''!'') (js_lit ''!'') = Inl InvalidEncoding \<and>
   decryptPSK toy_nacl (js_lit ''abc'') [] (js_lit ''!'') = Inl InvalidEncoding \<and>
   verify toy_nacl (js_lit ''abc'') (js_lit ''!'') = Inl InvalidEncoding"
proof -
  have a: "decodeUTF8 [0xD800] = Inl MalformedURI" by (simp add: is_low_surrogate_def is_high_surrogate_def)
  have b: "decodeBase64 (js_lit ''abc'') = Inl InvalidEncoding"
    by (rule decodeBase64_bad_length) (simp add: js_lit_def)
  show ?thesis using a b message_errors_first [OF a b] by simp
qed


end
